theory Spec2Isabelle
  imports Main
begin

section \<open>Python dictionaries\<close>

text \<open>
  A Python \<^verbatim>\<open>dict\<close> keeps its keys distinct and iterates in insertion order.
  It is modelled as an association list: \<open>dict_set\<close> overwrites the value of a key
  that is present without moving it and appends a key that is new (\<^verbatim>\<open>d[k] = v\<close>),
  \<open>dict_get\<close> is \<^verbatim>\<open>d.get(k)\<close>, \<open>dict_del\<close> is \<^verbatim>\<open>del d[k]\<close> and
  \<open>dict_values\<close> is \<^verbatim>\<open>list(d.values())\<close>.
\<close>

type_synonym ('k, 'v) dict = "('k \<times> 'v) list"

primrec dict_get :: "('k, 'v) dict \<Rightarrow> 'k \<Rightarrow> 'v option" where
  "dict_get [] k = None"
| "dict_get (p # ps) k = (if fst p = k then Some (snd p) else dict_get ps k)"

primrec dict_set :: "('k, 'v) dict \<Rightarrow> 'k \<Rightarrow> 'v \<Rightarrow> ('k, 'v) dict" where
  "dict_set [] k v = [(k, v)]"
| "dict_set (p # ps) k v = (if fst p = k then (k, v) # ps else p # dict_set ps k v)"

primrec dict_del :: "('k, 'v) dict \<Rightarrow> 'k \<Rightarrow> ('k, 'v) dict" where
  "dict_del [] k = []"
| "dict_del (p # ps) k = (if fst p = k then dict_del ps k else p # dict_del ps k)"

definition dict_keys :: "('k, 'v) dict \<Rightarrow> 'k list" where
  "dict_keys d = map fst d"

definition dict_values :: "('k, 'v) dict \<Rightarrow> 'v list" where
  "dict_values d = map snd d"


section \<open>models.py\<close>

definition VALID_PRIORITIES :: "string set" where
  "VALID_PRIORITIES = {''low'', ''medium'', ''high''}"

definition VALID_STATUSES :: "string set" where
  "VALID_STATUSES = {''todo'', ''in_progress'', ''review'', ''done''}"

text \<open>
  The two ways a request fails: a \<^verbatim>\<open>ValueError\<close> raised by a field validator
  (answered with status 422, the payload names the field) and an
  \<^verbatim>\<open>HTTPException\<close> with status 404 (the payload is its \<^verbatim>\<open>detail\<close>).
\<close>

datatype error = ValidationError string | NotFound string

subsection \<open>Request models\<close>

record AgentCreate =
  AgentCreate_name :: string
  AgentCreate_role :: string

record TaskCreate =
  TaskCreate_title :: string
  TaskCreate_description :: string
  TaskCreate_priority :: string

record TaskUpdate =
  TaskUpdate_title :: "string option"
  TaskUpdate_description :: "string option"
  TaskUpdate_priority :: "string option"

record StatusUpdate =
  StatusUpdate_status :: string

record AssignUpdate =
  AssignUpdate_agent_id :: string

definition TaskCreate_validate_priority :: "string \<Rightarrow> error + string" where
  "TaskCreate_validate_priority v =
     (if v \<notin> VALID_PRIORITIES then Inl (ValidationError ''priority'') else Inr v)"

definition TaskUpdate_validate_priority :: "string option \<Rightarrow> error + string option" where
  "TaskUpdate_validate_priority v =
     (if v \<noteq> None \<and> the v \<notin> VALID_PRIORITIES then Inl (ValidationError ''priority'')
      else Inr v)"

definition StatusUpdate_validate_status :: "string \<Rightarrow> error + string" where
  "StatusUpdate_validate_status v =
     (if v \<notin> VALID_STATUSES then Inl (ValidationError ''status'') else Inr v)"

text \<open>
  Building a request model from a payload. A field that the payload leaves out
  takes the default of the class (\<open>None\<close> below is "left out"), a field that is
  supplied goes through the validator of the class. For \<open>TaskUpdate\<close> a field left
  out and a field supplied as null both give \<open>None\<close>, which the validator lets through.
\<close>

definition new_TaskCreate :: "string \<Rightarrow> string \<Rightarrow> string option \<Rightarrow> error + TaskCreate" where
  "new_TaskCreate title description priority =
     (case priority of
        None \<Rightarrow> Inr \<lparr>TaskCreate_title = title, TaskCreate_description = description,
                     TaskCreate_priority = ''medium''\<rparr>
      | Some v \<Rightarrow>
          (case TaskCreate_validate_priority v of
             Inl e \<Rightarrow> Inl e
           | Inr v' \<Rightarrow> Inr \<lparr>TaskCreate_title = title, TaskCreate_description = description,
                            TaskCreate_priority = v'\<rparr>))"

definition new_TaskUpdate ::
  "string option \<Rightarrow> string option \<Rightarrow> string option \<Rightarrow> error + TaskUpdate" where
  "new_TaskUpdate title description priority =
     (case TaskUpdate_validate_priority priority of
        Inl e \<Rightarrow> Inl e
      | Inr v' \<Rightarrow> Inr \<lparr>TaskUpdate_title = title, TaskUpdate_description = description,
                       TaskUpdate_priority = v'\<rparr>)"

definition new_StatusUpdate :: "string \<Rightarrow> error + StatusUpdate" where
  "new_StatusUpdate status =
     (case StatusUpdate_validate_status status of
        Inl e \<Rightarrow> Inl e
      | Inr v' \<Rightarrow> Inr \<lparr>StatusUpdate_status = v'\<rparr>)"

subsection \<open>Response models\<close>

record Agent =
  Agent_id :: string
  Agent_name :: string
  Agent_role :: string

record Task =
  Task_id :: string
  Task_title :: string
  Task_description :: string
  Task_priority :: string
  Task_status :: string
  Task_created_at :: string
  Task_updated_at :: "string option"
  Task_assigned_to :: "Agent option"

record DashboardResponse =
  DashboardResponse_total :: int
  DashboardResponse_by_status :: "(string, int) dict"
  DashboardResponse_by_priority :: "(string, int) dict"


section \<open>storage.py\<close>

text \<open>
  The records kept in storage are dicts with a fixed set of keys. A dict of the
  shape \<^verbatim>\<open>{"id", "name", "role"}\<close> is an object that both collections could
  share (an agent record, and the value under \<^verbatim>\<open>"assigned_to"\<close> of a task
  record), so these objects live in an explicit object store \<open>objs\<close> and are
  referred to by address; a new dict is allocated at the end of the store. A task
  record is reached through \<^verbatim>\<open>storage.tasks\<close> alone and is kept by value there:
  assigning to a key of the record replaces the record under its id.
\<close>

type_synonym addr = nat

record agent_dict =
  a_id :: string
  a_name :: string
  a_role :: string

record task_dict =
  t_id :: string
  t_title :: string
  t_description :: string
  t_priority :: string
  t_status :: string
  t_created_at :: string
  t_updated_at :: "string option"
  t_assigned_to :: "addr option"

record state =
  objs :: "agent_dict list"
  agents :: "(string, addr) dict"
  tasks :: "(string, task_dict) dict"

definition alloc :: "agent_dict \<Rightarrow> state \<Rightarrow> addr \<times> state" where
  "alloc d s = (length (objs s), s\<lparr>objs := objs s @ [d]\<rparr>)"

definition init :: state where
  "init = \<lparr>objs = [], agents = [], tasks = []\<rparr>"

text \<open>
  Reading through a reference. An address comes from \<open>alloc\<close> alone, so every address
  that a state holds is below the length of its object store; this is \<open>heap_ok\<close>
  below, which holds in every reachable state.
\<close>

definition deref :: "state \<Rightarrow> addr \<Rightarrow> agent_dict" where
  "deref s p = objs s ! p"


section \<open>routers/agents.py\<close>

text \<open>
  \<^verbatim>\<open>uuid.uuid4()\<close> and \<^verbatim>\<open>datetime.now()\<close> read the environment. The value
  each of them returns during a call is an argument of the model (\<open>agent_id\<close>,
  \<open>task_id\<close> in the two create functions, \<open>now\<close>), so that a theorem holds for
  whatever they return.
\<close>

definition agent_from_dict :: "agent_dict \<Rightarrow> Agent" where
  "agent_from_dict d = \<lparr>Agent_id = a_id d, Agent_name = a_name d, Agent_role = a_role d\<rparr>"

definition create_agent :: "AgentCreate \<Rightarrow> string \<Rightarrow> state \<Rightarrow> Agent \<times> state" where
  "create_agent body agent_id s =
     (let (record, s1) = alloc \<lparr>a_id = agent_id, a_name = AgentCreate_name body,
                                a_role = AgentCreate_role body\<rparr> s;
          s2 = s1\<lparr>agents := dict_set (agents s1) agent_id record\<rparr>
      in (agent_from_dict (deref s2 record), s2))"

definition list_agents :: "state \<Rightarrow> Agent list" where
  "list_agents s = map (\<lambda>a. agent_from_dict (deref s a)) (dict_values (agents s))"

definition get_agent :: "string \<Rightarrow> state \<Rightarrow> error + Agent" where
  "get_agent agent_id s =
     (case dict_get (agents s) agent_id of
        None \<Rightarrow> Inl (NotFound ''Agent not found'')
      | Some record \<Rightarrow> Inr (agent_from_dict (deref s record)))"


section \<open>routers/tasks.py\<close>

definition task_from_dict :: "state \<Rightarrow> task_dict \<Rightarrow> Task" where
  "task_from_dict s d =
     (let assigned =
            (case t_assigned_to d of
               None \<Rightarrow> None
             | Some a \<Rightarrow> Some \<lparr>Agent_id = a_id (deref s a), Agent_name = a_name (deref s a),
                               Agent_role = a_role (deref s a)\<rparr>)
      in \<lparr>Task_id = t_id d, Task_title = t_title d, Task_description = t_description d,
          Task_priority = t_priority d, Task_status = t_status d,
          Task_created_at = t_created_at d, Task_updated_at = t_updated_at d,
          Task_assigned_to = assigned\<rparr>)"

definition get_task_or_404 :: "string \<Rightarrow> state \<Rightarrow> error + task_dict" where
  "get_task_or_404 task_id s =
     (case dict_get (tasks s) task_id of
        None \<Rightarrow> Inl (NotFound ''Task not found'')
      | Some record \<Rightarrow> Inr record)"

text \<open>
  A function that mutates storage returns its result with the state it leaves. A raise
  leaves the state as it is at that point, which for every function below is the state
  it was called in.
\<close>

definition create_task :: "TaskCreate \<Rightarrow> string \<Rightarrow> string \<Rightarrow> state \<Rightarrow> Task \<times> state" where
  "create_task body task_id now s =
     (let record = \<lparr>t_id = task_id, t_title = TaskCreate_title body,
                    t_description = TaskCreate_description body,
                    t_priority = TaskCreate_priority body, t_status = ''todo'',
                    t_created_at = now, t_updated_at = None, t_assigned_to = None\<rparr>;
          s1 = s\<lparr>tasks := dict_set (tasks s) task_id record\<rparr>
      in (task_from_dict s1 record, s1))"

definition list_tasks ::
  "string option \<Rightarrow> string option \<Rightarrow> string option \<Rightarrow> state \<Rightarrow> Task list" where
  "list_tasks status_filter assigned_to priority s =
     (let results = dict_values (tasks s);
          results1 = (case status_filter of
                        None \<Rightarrow> results
                      | Some v \<Rightarrow> filter (\<lambda>t. t_status t = v) results);
          results2 = (case assigned_to of
                        None \<Rightarrow> results1
                      | Some v \<Rightarrow>
                          filter (\<lambda>t. t_assigned_to t \<noteq> None
                                        \<and> a_id (deref s (the (t_assigned_to t))) = v) results1);
          results3 = (case priority of
                        None \<Rightarrow> results2
                      | Some v \<Rightarrow> filter (\<lambda>t. t_priority t = v) results2)
      in map (task_from_dict s) results3)"

definition update_task_status ::
  "string \<Rightarrow> StatusUpdate \<Rightarrow> string \<Rightarrow> state \<Rightarrow> (error + Task) \<times> state" where
  "update_task_status task_id body now s =
     (case get_task_or_404 task_id s of
        Inl e \<Rightarrow> (Inl e, s)
      | Inr record \<Rightarrow>
          (let record1 = record\<lparr>t_status := StatusUpdate_status body\<rparr>;
               record2 = record1\<lparr>t_updated_at := Some now\<rparr>;
               s1 = s\<lparr>tasks := dict_set (tasks s) task_id record2\<rparr>
           in (Inr (task_from_dict s1 record2), s1)))"

definition assign_task ::
  "string \<Rightarrow> AssignUpdate \<Rightarrow> string \<Rightarrow> state \<Rightarrow> (error + Task) \<times> state" where
  "assign_task task_id body now s =
     (case get_task_or_404 task_id s of
        Inl e \<Rightarrow> (Inl e, s)
      | Inr record \<Rightarrow>
          (case dict_get (agents s) (AssignUpdate_agent_id body) of
             None \<Rightarrow> (Inl (NotFound ''Agent not found''), s)
           | Some agent \<Rightarrow>
               (let (snapshot, s1) = alloc \<lparr>a_id = a_id (deref s agent),
                                            a_name = a_name (deref s agent),
                                            a_role = a_role (deref s agent)\<rparr> s;
                    record1 = record\<lparr>t_assigned_to := Some snapshot\<rparr>;
                    record2 = record1\<lparr>t_updated_at := Some now\<rparr>;
                    s2 = s1\<lparr>tasks := dict_set (tasks s1) task_id record2\<rparr>
                in (Inr (task_from_dict s2 record2), s2))))"

definition get_task :: "string \<Rightarrow> state \<Rightarrow> error + Task" where
  "get_task task_id s =
     (case get_task_or_404 task_id s of
        Inl e \<Rightarrow> Inl e
      | Inr record \<Rightarrow> Inr (task_from_dict s record))"

definition update_task ::
  "string \<Rightarrow> TaskUpdate \<Rightarrow> string \<Rightarrow> state \<Rightarrow> (error + Task) \<times> state" where
  "update_task task_id body now s =
     (case get_task_or_404 task_id s of
        Inl e \<Rightarrow> (Inl e, s)
      | Inr record \<Rightarrow>
          (let record1 = (case TaskUpdate_title body of
                            None \<Rightarrow> record
                          | Some v \<Rightarrow> record\<lparr>t_title := v\<rparr>);
               record2 = (case TaskUpdate_description body of
                            None \<Rightarrow> record1
                          | Some v \<Rightarrow> record1\<lparr>t_description := v\<rparr>);
               record3 = (case TaskUpdate_priority body of
                            None \<Rightarrow> record2
                          | Some v \<Rightarrow> record2\<lparr>t_priority := v\<rparr>);
               record4 = record3\<lparr>t_updated_at := Some now\<rparr>;
               s1 = s\<lparr>tasks := dict_set (tasks s) task_id record4\<rparr>
           in (Inr (task_from_dict s1 record4), s1)))"

definition delete_task :: "string \<Rightarrow> state \<Rightarrow> (error + unit) \<times> state" where
  "delete_task task_id s =
     (case get_task_or_404 task_id s of
        Inl e \<Rightarrow> (Inl e, s)
      | Inr record \<Rightarrow> (Inr (), s\<lparr>tasks := dict_del (tasks s) task_id\<rparr>))"


section \<open>routers/dashboard.py\<close>

text \<open>\<^verbatim>\<open>if s in d: d[s] += 1\<close>.\<close>

definition bump :: "(string, int) dict \<Rightarrow> string \<Rightarrow> (string, int) dict" where
  "bump d k = (case dict_get d k of None \<Rightarrow> d | Some c \<Rightarrow> dict_set d k (c + 1))"

text \<open>
  The loop over \<^verbatim>\<open>all_tasks\<close>. Every task record has the keys \<^verbatim>\<open>"status"\<close>
  and \<^verbatim>\<open>"priority"\<close>, so the defaults of the two \<^verbatim>\<open>task.get\<close> calls are never
  taken.
\<close>

fun tally ::
  "task_dict list \<Rightarrow> (string, int) dict \<Rightarrow> (string, int) dict
     \<Rightarrow> (string, int) dict \<times> (string, int) dict" where
  "tally [] bs bp = (bs, bp)"
| "tally (task # rest) bs bp = tally rest (bump bs (t_status task)) (bump bp (t_priority task))"

definition get_dashboard :: "state \<Rightarrow> DashboardResponse" where
  "get_dashboard s =
     (let all_tasks = dict_values (tasks s);
          (bs, bp) = tally all_tasks
                       [(''todo'', 0), (''in_progress'', 0), (''review'', 0), (''done'', 0)]
                       [(''low'', 0), (''medium'', 0), (''high'', 0)]
      in \<lparr>DashboardResponse_total = int (length all_tasks), DashboardResponse_by_status = bs,
          DashboardResponse_by_priority = bp\<rparr>)"


section \<open>The application\<close>

text \<open>
  One constructor for each route of the three routers, with the payload as it arrives
  (an optional field is an \<open>option\<close>). \<open>handle\<close> builds the request model, which
  may fail in a validator, and calls the endpoint; \<open>uuid\<close> and \<open>now\<close> are what
  \<^verbatim>\<open>uuid.uuid4()\<close> and \<^verbatim>\<open>datetime.now()\<close> give during this request.
\<close>

datatype request =
    CreateAgent string string
  | ListAgents
  | GetAgent string
  | CreateTask string string "string option"
  | ListTasks "string option" "string option" "string option"
  | GetTask string
  | UpdateTask string "string option" "string option" "string option"
  | DeleteTask string
  | SetStatus string string
  | AssignTask string string
  | GetDashboard

datatype response =
    RAgent Agent
  | RAgents "Agent list"
  | RTask Task
  | RTasks "Task list"
  | RDashboard DashboardResponse
  | RNoContent

definition answer :: "('a \<Rightarrow> response) \<Rightarrow> (error + 'a) \<times> state \<Rightarrow> (error + response) \<times> state" where
  "answer f r = (case fst r of Inl e \<Rightarrow> (Inl e, snd r) | Inr x \<Rightarrow> (Inr (f x), snd r))"

fun handle :: "request \<Rightarrow> string \<Rightarrow> string \<Rightarrow> state \<Rightarrow> (error + response) \<times> state" where
  "handle (CreateAgent name role) uuid now s =
     (let (a, s1) = create_agent \<lparr>AgentCreate_name = name, AgentCreate_role = role\<rparr> uuid s
      in (Inr (RAgent a), s1))"
| "handle ListAgents uuid now s = (Inr (RAgents (list_agents s)), s)"
| "handle (GetAgent agent_id) uuid now s = answer RAgent (get_agent agent_id s, s)"
| "handle (CreateTask title description priority) uuid now s =
     (case new_TaskCreate title description priority of
        Inl e \<Rightarrow> (Inl e, s)
      | Inr body \<Rightarrow> (let (t, s1) = create_task body uuid now s in (Inr (RTask t), s1)))"
| "handle (ListTasks status_filter assigned_to priority) uuid now s =
     (Inr (RTasks (list_tasks status_filter assigned_to priority s)), s)"
| "handle (GetTask task_id) uuid now s = answer RTask (get_task task_id s, s)"
| "handle (UpdateTask task_id title description priority) uuid now s =
     (case new_TaskUpdate title description priority of
        Inl e \<Rightarrow> (Inl e, s)
      | Inr body \<Rightarrow> answer RTask (update_task task_id body now s))"
| "handle (DeleteTask task_id) uuid now s = answer (\<lambda>_. RNoContent) (delete_task task_id s)"
| "handle (SetStatus task_id status) uuid now s =
     (case new_StatusUpdate status of
        Inl e \<Rightarrow> (Inl e, s)
      | Inr body \<Rightarrow> answer RTask (update_task_status task_id body now s))"
| "handle (AssignTask task_id agent_id) uuid now s =
     answer RTask (assign_task task_id \<lparr>AssignUpdate_agent_id = agent_id\<rparr> now s)"
| "handle GetDashboard uuid now s = (Inr (RDashboard (get_dashboard s)), s)"

text \<open>
  A history is the list of the requests served since the process started, the latest
  first, each with the two values the environment gave it. \<open>run\<close> is the state
  the history leaves; the reachable states are the states \<open>run h\<close>.
\<close>

type_synonym event = "request \<times> string \<times> string"

fun run :: "event list \<Rightarrow> state" where
  "run [] = init"
| "run ((req, uuid, now) # h) = snd (handle req uuid now (run h))"

section \<open>Histories\<close>

text \<open>
  The three requests that change a stored task, with the id of the task they address,
  and the request that creates one.
\<close>

fun mutating :: "request \<Rightarrow> string option" where
  "mutating (UpdateTask task_id title description priority) = Some task_id"
| "mutating (SetStatus task_id status) = Some task_id"
| "mutating (AssignTask task_id agent_id) = Some task_id"
| "mutating req = None"

fun creating :: "request \<Rightarrow> bool" where
  "creating (CreateTask title description priority) = True"
| "creating req = False"

text \<open>A request succeeds in a state when it is answered with a result, not an error.\<close>

definition succeeds :: "request \<Rightarrow> string \<Rightarrow> string \<Rightarrow> state \<Rightarrow> bool" where
  "succeeds req uuid now s = (case fst (handle req uuid now s) of Inl e \<Rightarrow> False | Inr x \<Rightarrow> True)"

text \<open>
  \<open>mutated_since_creation task_id h\<close>: going back from the latest request of the
  history, a successful update, status change or assignment of the task is met before
  the successful create request that was given \<open>task_id\<close> as its id.
\<close>

fun mutated_since_creation :: "string \<Rightarrow> event list \<Rightarrow> bool" where
  "mutated_since_creation task_id [] = False"
| "mutated_since_creation task_id ((req, uuid, now) # h) =
     (if succeeds req uuid now (run h) \<and> mutating req = Some task_id then True
      else if succeeds req uuid now (run h) \<and> creating req \<and> uuid = task_id then False
      else mutated_since_creation task_id h)"

text \<open>
  Two properties of a state. \<open>enum_ok\<close>: the priority and the status of every stored
  task belong to their enumerations. \<open>heap_ok\<close>: every address held by an agent entry
  or by the \<^verbatim>\<open>"assigned_to"\<close> key of a task is allocated.
\<close>

definition enum_ok :: "state \<Rightarrow> bool" where
  "enum_ok s = (\<forall>t \<in> set (dict_values (tasks s)).
                  t_priority t \<in> VALID_PRIORITIES \<and> t_status t \<in> VALID_STATUSES)"

definition heap_ok :: "state \<Rightarrow> bool" where
  "heap_ok s = ((\<forall>a \<in> set (dict_values (agents s)). a < length (objs s))
              \<and> (\<forall>t \<in> set (dict_values (tasks s)).
                    \<forall>p. t_assigned_to t = Some p \<longrightarrow> p < length (objs s)))"


section \<open>An example history\<close>

text \<open>
  An agent is created, then three tasks with the priorities medium (the default), high
  and low; the second task is moved to "done" and the first is assigned to the agent.
  \<open>s_demo\<close> is the state this history leaves.
\<close>

definition h_demo :: "event list" where
  "h_demo =
     [(AssignTask ''task-1'' ''agent-1'', '''', ''2026-01-01T00:05:00+00:00''),
      (SetStatus ''task-2'' ''done'', '''', ''2026-01-01T00:04:00+00:00''),
      (CreateTask ''Deploy'' ''Ship it'' (Some ''low''), ''task-3'', ''2026-01-01T00:03:00+00:00''),
      (CreateTask ''Review'' ''Read it'' (Some ''high''), ''task-2'', ''2026-01-01T00:02:00+00:00''),
      (CreateTask ''T'' ''D'' None, ''task-1'', ''2026-01-01T00:01:00+00:00''),
      (CreateAgent ''Alice'' ''senior_dev'', ''agent-1'', ''2026-01-01T00:00:00+00:00'')]"

definition s_demo :: state where
  "s_demo =
     \<lparr>objs = [\<lparr>a_id = ''agent-1'', a_name = ''Alice'', a_role = ''senior_dev''\<rparr>,
              \<lparr>a_id = ''agent-1'', a_name = ''Alice'', a_role = ''senior_dev''\<rparr>],
      agents = [(''agent-1'', 0)],
      tasks =
        [(''task-1'',
          \<lparr>t_id = ''task-1'', t_title = ''T'', t_description = ''D'', t_priority = ''medium'',
           t_status = ''todo'', t_created_at = ''2026-01-01T00:01:00+00:00'',
           t_updated_at = Some ''2026-01-01T00:05:00+00:00'', t_assigned_to = Some 1\<rparr>),
         (''task-2'',
          \<lparr>t_id = ''task-2'', t_title = ''Review'', t_description = ''Read it'',
           t_priority = ''high'', t_status = ''done'',
           t_created_at = ''2026-01-01T00:02:00+00:00'',
           t_updated_at = Some ''2026-01-01T00:04:00+00:00'', t_assigned_to = None\<rparr>),
         (''task-3'',
          \<lparr>t_id = ''task-3'', t_title = ''Deploy'', t_description = ''Ship it'',
           t_priority = ''low'', t_status = ''todo'',
           t_created_at = ''2026-01-01T00:03:00+00:00'',
           t_updated_at = None, t_assigned_to = None\<rparr>)]\<rparr>"

section \<open>Facts about dictionaries\<close>


lemma dict_get_set: "dict_get (dict_set d k v) k' = (if k' = k then Some v else dict_get d k')"
  by (induction d) auto

lemma dict_get_del: "dict_get (dict_del d k) k' = (if k' = k then None else dict_get d k')"
  by (induction d) auto

lemma dict_del_filter: "dict_del d k = filter (\<lambda>p. fst p \<noteq> k) d"
  by (induction d) auto

lemma dict_get_None_iff: "dict_get d k = None \<longleftrightarrow> k \<notin> set (dict_keys d)"
  by (induction d) (auto simp: dict_keys_def)

lemma dict_get_Some_mem: "dict_get d k = Some v \<Longrightarrow> (k, v) \<in> set d"
  by (induction d) (auto split: if_splits)

lemma dict_keys_set_present: "dict_get d k = Some v' \<Longrightarrow> dict_keys (dict_set d k v) = dict_keys d"
  by (induction d) (auto simp: dict_keys_def)

lemma dict_set_absent: "dict_get d k = None \<Longrightarrow> dict_set d k v = d @ [(k, v)]"
  by (induction d) (auto split: if_splits)

lemma set_dict_set: "set (dict_set d k v) \<subseteq> insert (k, v) (set d)"
  by (induction d) auto

lemma set_dict_del: "set (dict_del d k) \<subseteq> set d"
  by (induction d) auto

lemma distinct_dict_set: "distinct (dict_keys d) \<Longrightarrow> distinct (dict_keys (dict_set d k v))"
  by (induction d) (auto simp: dict_keys_def dest: subsetD [OF set_dict_set])

lemma distinct_dict_del: "distinct (dict_keys d) \<Longrightarrow> distinct (dict_keys (dict_del d k))"
  by (induction d) (auto simp: dict_keys_def dest: subsetD [OF set_dict_del])

lemma length_dict_del:
  "distinct (dict_keys d) \<Longrightarrow> dict_get d k = Some v \<Longrightarrow> Suc (length (dict_del d k)) = length d"
proof (induction d)
  case Nil
  then show ?case by simp
next
  case (Cons p ps)
  show ?case
  proof (cases "fst p = k")
    case True
    with Cons.prems have "k \<notin> set (dict_keys ps)" by (simp add: dict_keys_def)
    then have "dict_del ps k = ps" by (induction ps) (auto simp: dict_keys_def)
    with True show ?thesis by simp
  next
    case False
    with Cons show ?thesis by (simp add: dict_keys_def)
  qed
qed

section \<open>The enumerations are an invariant\<close>

lemma dict_get_Some_values: "dict_get d k = Some v \<Longrightarrow> v \<in> set (dict_values d)"
  by (induction d) (auto simp: dict_values_def split: if_splits)

lemma values_dict_set: "set (dict_values (dict_set d k v)) \<subseteq> insert v (set (dict_values d))"
  by (induction d) (auto simp: dict_values_def)

lemma values_dict_del: "set (dict_values (dict_del d k)) \<subseteq> set (dict_values d)"
  by (induction d) (auto simp: dict_values_def)

lemma enum_ok_set:
  "enum_ok s \<Longrightarrow> t_priority r \<in> VALID_PRIORITIES \<Longrightarrow> t_status r \<in> VALID_STATUSES \<Longrightarrow>
   enum_ok (s\<lparr>tasks := dict_set (tasks s) k r\<rparr>)"
  using values_dict_set [of "tasks s" k r] by (auto simp: enum_ok_def)

lemma enum_ok_create_task:
  "enum_ok s \<Longrightarrow> TaskCreate_priority body \<in> VALID_PRIORITIES \<Longrightarrow>
   enum_ok (snd (create_task body task_id now s))"
  by (simp add: create_task_def Let_def enum_ok_set VALID_STATUSES_def)

lemma new_TaskCreate_valid:
  "new_TaskCreate title description priority = Inr body \<Longrightarrow>
   TaskCreate_priority body \<in> VALID_PRIORITIES"
  by (auto simp: new_TaskCreate_def TaskCreate_validate_priority_def VALID_PRIORITIES_def
           split: option.splits if_splits)

lemma new_TaskUpdate_valid:
  "new_TaskUpdate title description priority = Inr body \<Longrightarrow>
   TaskUpdate_priority body = Some v \<Longrightarrow> v \<in> VALID_PRIORITIES"
  by (auto simp: new_TaskUpdate_def TaskUpdate_validate_priority_def split: if_splits)

lemma new_StatusUpdate_valid:
  "new_StatusUpdate status = Inr body \<Longrightarrow> StatusUpdate_status body \<in> VALID_STATUSES"
  by (auto simp: new_StatusUpdate_def StatusUpdate_validate_status_def split: if_splits)

lemma enum_ok_stored:
  "enum_ok s \<Longrightarrow> dict_get (tasks s) k = Some r \<Longrightarrow>
   t_priority r \<in> VALID_PRIORITIES \<and> t_status r \<in> VALID_STATUSES"
  by (auto simp: enum_ok_def dest: dict_get_Some_values)

lemma enum_ok_update_task:
  assumes "enum_ok s" and "\<And>v. TaskUpdate_priority body = Some v \<Longrightarrow> v \<in> VALID_PRIORITIES"
  shows "enum_ok (snd (update_task task_id body now s))"
proof (cases "dict_get (tasks s) task_id")
  case None
  with assms(1) show ?thesis by (simp add: update_task_def get_task_or_404_def)
next
  case (Some r)
  from enum_ok_stored [OF assms(1) Some] assms(2) show ?thesis
    using Some assms(1)
    by (auto simp: update_task_def get_task_or_404_def Let_def intro!: enum_ok_set
             split: option.splits)
qed

lemma enum_ok_update_task_status:
  assumes "enum_ok s" and "StatusUpdate_status body \<in> VALID_STATUSES"
  shows "enum_ok (snd (update_task_status task_id body now s))"
proof (cases "dict_get (tasks s) task_id")
  case None
  with assms(1) show ?thesis by (simp add: update_task_status_def get_task_or_404_def)
next
  case (Some r)
  from enum_ok_stored [OF assms(1) Some] assms(2) show ?thesis
    using Some assms(1)
    by (auto simp: update_task_status_def get_task_or_404_def Let_def intro!: enum_ok_set)
qed

lemma enum_ok_objs [simp]: "enum_ok (s\<lparr>objs := x\<rparr>) = enum_ok s"
  by (simp add: enum_ok_def)

lemma enum_ok_agents [simp]: "enum_ok (s\<lparr>agents := x\<rparr>) = enum_ok s"
  by (simp add: enum_ok_def)

lemma enum_ok_assign_task:
  assumes "enum_ok s"
  shows "enum_ok (snd (assign_task task_id body now s))"
proof (cases "dict_get (tasks s) task_id")
  case None
  with assms(1) show ?thesis by (simp add: assign_task_def get_task_or_404_def)
next
  case (Some r)
  from enum_ok_stored [OF assms(1) Some] show ?thesis
    using Some assms(1) enum_ok_set [of "s\<lparr>objs := x\<rparr>" for x]
    by (auto simp: assign_task_def get_task_or_404_def Let_def alloc_def 
             split: option.splits)
qed

lemma enum_ok_delete_task:
  assumes "enum_ok s"
  shows "enum_ok (snd (delete_task task_id s))"
  using assms values_dict_del [of "tasks s" task_id]
  by (auto simp: delete_task_def get_task_or_404_def enum_ok_def split: option.splits)

lemma snd_answer [simp]: "snd (answer f r) = snd r"
  by (simp add: answer_def split: sum.splits)

lemma enum_ok_handle: "enum_ok s \<Longrightarrow> enum_ok (snd (handle req uuid now s))"
proof (cases req)
  case (CreateAgent name role)
  assume "enum_ok s"
  then show ?thesis using CreateAgent by (simp add: create_agent_def alloc_def Let_def)
next
  case (CreateTask title description priority)
  assume "enum_ok s"
  then show ?thesis using CreateTask
    by (auto simp: split_beta dest: new_TaskCreate_valid intro: enum_ok_create_task split: sum.splits)
next
  case (UpdateTask task_id title description priority)
  assume "enum_ok s"
  then show ?thesis using UpdateTask
    by (auto dest: new_TaskUpdate_valid intro: enum_ok_update_task split: sum.splits)
next
  case (SetStatus task_id status)
  assume "enum_ok s"
  then show ?thesis using SetStatus
    by (auto dest: new_StatusUpdate_valid intro: enum_ok_update_task_status split: sum.splits)
qed (simp_all add: enum_ok_assign_task enum_ok_delete_task)

lemma enum_ok_run: "enum_ok (run h)"
proof (induction h)
  case Nil
  show ?case by (simp add: enum_ok_def init_def dict_values_def)
next
  case (Cons e h)
  then show ?case by (cases e) (simp add: enum_ok_handle)
qed


section \<open>Every address in use is allocated\<close>

lemma heap_ok_init: "heap_ok init"
  by (simp add: heap_ok_def init_def dict_values_def)

lemma heap_ok_stored:
  "heap_ok s \<Longrightarrow> dict_get (tasks s) k = Some r \<Longrightarrow> t_assigned_to r = Some p \<Longrightarrow>
   p < length (objs s)"
  by (auto simp: heap_ok_def dest: dict_get_Some_values)

lemma heap_ok_agent:
  "heap_ok s \<Longrightarrow> dict_get (agents s) k = Some a \<Longrightarrow> a < length (objs s)"
  by (auto simp: heap_ok_def dest: dict_get_Some_values)

lemma heap_ok_set_task:
  assumes "heap_ok s" and "\<And>p. t_assigned_to r = Some p \<Longrightarrow> p < length (objs s)"
  shows "heap_ok (s\<lparr>tasks := dict_set (tasks s) k r\<rparr>)"
  using assms values_dict_set [of "tasks s" k r] by (auto simp: heap_ok_def)

lemma heap_ok_alloc: "heap_ok s \<Longrightarrow> heap_ok (s\<lparr>objs := objs s @ [d]\<rparr>)"
  by (auto simp: heap_ok_def less_Suc_eq)

lemma heap_ok_create_agent: "heap_ok s \<Longrightarrow> heap_ok (snd (create_agent body agent_id s))"
  using values_dict_set [of "agents s" agent_id "length (objs s)"]
  by (auto simp: create_agent_def alloc_def Let_def heap_ok_def less_Suc_eq)

lemma heap_ok_create_task: "heap_ok s \<Longrightarrow> heap_ok (snd (create_task body task_id now s))"
  by (auto simp: create_task_def Let_def intro!: heap_ok_set_task)

lemma heap_ok_update_task: "heap_ok s \<Longrightarrow> heap_ok (snd (update_task task_id body now s))"
  by (auto simp: update_task_def get_task_or_404_def Let_def
           intro!: heap_ok_set_task dest: heap_ok_stored split: option.splits)

lemma heap_ok_update_task_status:
  "heap_ok s \<Longrightarrow> heap_ok (snd (update_task_status task_id body now s))"
  by (auto simp: update_task_status_def get_task_or_404_def Let_def
           intro!: heap_ok_set_task dest: heap_ok_stored split: option.splits)

lemma heap_ok_assign_task: "heap_ok s \<Longrightarrow> heap_ok (snd (assign_task task_id body now s))"
proof -
  assume ok: "heap_ok s"
  have "heap_ok (s\<lparr>objs := objs s @ [d],
                  tasks := dict_set (tasks s) task_id
                    (r\<lparr>t_assigned_to := Some (length (objs s)), t_updated_at := Some now\<rparr>)\<rparr>)"
    for d r
    using heap_ok_set_task [OF heap_ok_alloc [OF ok, of d], of
        "r\<lparr>t_assigned_to := Some (length (objs s)), t_updated_at := Some now\<rparr>" task_id]
    by simp
  with ok show ?thesis
    by (auto simp: assign_task_def get_task_or_404_def Let_def alloc_def split: option.splits)
qed

lemma heap_ok_delete_task: "heap_ok s \<Longrightarrow> heap_ok (snd (delete_task task_id s))"
  using values_dict_del [of "tasks s" task_id]
  by (auto simp: delete_task_def get_task_or_404_def heap_ok_def split: option.splits)

lemma heap_ok_handle: "heap_ok s \<Longrightarrow> heap_ok (snd (handle req uuid now s))"
  by (cases req)
     (auto simp: split_beta heap_ok_create_agent heap_ok_create_task heap_ok_update_task
        heap_ok_update_task_status heap_ok_assign_task heap_ok_delete_task
        split: sum.splits)

lemma heap_ok_run: "heap_ok (run h)"
proof (induction h)
  case Nil
  show ?case by (simp add: heap_ok_init)
next
  case (Cons e h)
  then show ?case by (cases e) (simp add: heap_ok_handle)
qed

lemma get_task_Inr:
  "get_task task_id s = Inr T \<longleftrightarrow> (\<exists>r. dict_get (tasks s) task_id = Some r \<and> T = task_from_dict s r)"
  by (auto simp: get_task_def get_task_or_404_def split: option.splits)

lemma get_agent_Inr:
  "get_agent agent_id s = Inr A \<longleftrightarrow>
     (\<exists>a. dict_get (agents s) agent_id = Some a \<and> A = agent_from_dict (deref s a))"
  by (auto simp: get_agent_def split: option.splits)


section \<open>The history of a stored task\<close>

lemma succeeds_mutating:
  assumes "mutating req = Some task_id" and "succeeds req uuid now s"
  shows "\<exists>t. dict_get (tasks (snd (handle req uuid now s))) task_id = Some t
             \<and> t_updated_at t = Some now"
proof (cases req)
  case (UpdateTask k title description priority)
  with assms show ?thesis
    by (auto simp: succeeds_def answer_def update_task_def get_task_or_404_def Let_def
          dict_get_set split: sum.splits option.splits)
next
  case (SetStatus k status)
  with assms show ?thesis
    by (auto simp: succeeds_def answer_def update_task_status_def get_task_or_404_def Let_def
          dict_get_set split: sum.splits option.splits)
next
  case (AssignTask k agent_id)
  with assms show ?thesis
    by (auto simp: succeeds_def answer_def assign_task_def get_task_or_404_def Let_def
          alloc_def dict_get_set split: sum.splits option.splits)
qed (use assms in simp_all)

lemma succeeds_creating:
  assumes "creating req" and "succeeds req uuid now s"
  shows "\<exists>t. dict_get (tasks (snd (handle req uuid now s))) uuid = Some t
             \<and> t_updated_at t = None"
proof (cases req)
  case (CreateTask title description priority)
  with assms show ?thesis
    by (auto simp: succeeds_def create_task_def Let_def dict_get_set split: sum.splits)
qed (use assms in simp_all)

lemma not_succeeds_state: "\<not> succeeds req uuid now s \<Longrightarrow> snd (handle req uuid now s) = s"
  by (cases req)
     (auto simp: succeeds_def answer_def split_beta get_agent_def get_task_def
        update_task_def update_task_status_def assign_task_def delete_task_def Let_def
        split: sum.splits option.splits)

lemma other_task_kept:
  assumes "mutating req \<noteq> Some task_id" and "\<not> (creating req \<and> uuid = task_id)"
    and "dict_get (tasks (snd (handle req uuid now s))) task_id = Some t"
  shows "dict_get (tasks s) task_id = Some t"
proof (cases req)
  case (CreateAgent name role)
  with assms show ?thesis by (simp add: create_agent_def alloc_def Let_def)
next
  case (CreateTask title description priority)
  with assms show ?thesis
    by (auto simp: create_task_def Let_def dict_get_set split: sum.splits if_splits)
next
  case (UpdateTask k title description priority)
  with assms show ?thesis
    by (auto simp: update_task_def get_task_or_404_def Let_def dict_get_set answer_def
          split: sum.splits option.splits if_splits)
next
  case (DeleteTask k)
  with assms show ?thesis
    by (auto simp: delete_task_def get_task_or_404_def dict_get_del answer_def
          split: sum.splits option.splits if_splits)
next
  case (SetStatus k status)
  with assms show ?thesis
    by (auto simp: update_task_status_def get_task_or_404_def Let_def dict_get_set answer_def
          split: sum.splits option.splits if_splits)
next
  case (AssignTask k agent_id)
  with assms show ?thesis
    by (auto simp: assign_task_def get_task_or_404_def Let_def alloc_def dict_get_set answer_def
          split: sum.splits option.splits if_splits)
qed (use assms in \<open>simp_all add: answer_def split: sum.splits\<close>)

lemma updated_at_history:
  "dict_get (tasks (run h)) task_id = Some t \<Longrightarrow>
   (t_updated_at t = None) = (\<not> mutated_since_creation task_id h)"
proof (induction h arbitrary: t)
  case Nil
  then show ?case by (simp add: init_def)
next
  case (Cons e h)
  obtain req uuid now where e: "e = (req, uuid, now)" by (cases e)
  let ?s = "run h"
  from Cons.prems e have stored: "dict_get (tasks (snd (handle req uuid now ?s))) task_id = Some t"
    by simp
  show ?case
  proof (cases "succeeds req uuid now ?s")
    case False
    with stored have "dict_get (tasks ?s) task_id = Some t" by (simp add: not_succeeds_state)
    with Cons.IH False e show ?thesis by simp
  next
    case True
    show ?thesis
    proof (cases "mutating req = Some task_id")
      case m: True
      from succeeds_mutating [OF m True] stored have "t_updated_at t = Some now" by auto
      with m True e show ?thesis by simp
    next
      case m: False
      show ?thesis
      proof (cases "creating req \<and> uuid = task_id")
        case c: True
        with succeeds_creating [of req uuid now ?s] True stored have "t_updated_at t = None"
          by auto
        with m c True e show ?thesis by simp
      next
        case c: False
        from other_task_kept [OF m c stored] have "dict_get (tasks ?s) task_id = Some t" .
        with Cons.IH m c e show ?thesis by auto
      qed
    qed
  qed
qed


section \<open>Listing tasks\<close>

lemma list_tasks_unfiltered:
  "list_tasks None None None s = map (task_from_dict s) (dict_values (tasks s))"
  by (simp add: list_tasks_def)

lemma task_from_dict_sel [simp]:
  "Task_status (task_from_dict s t) = t_status t"
  "Task_priority (task_from_dict s t) = t_priority t"
  "Task_id (task_from_dict s t) = t_id t"
  "Task_updated_at (task_from_dict s t) = t_updated_at t"
  by (simp_all add: task_from_dict_def)

lemma task_from_dict_assigned:
  "(\<exists>A. Task_assigned_to (task_from_dict s t) = Some A \<and> Agent_id A = v)
     \<longleftrightarrow> (t_assigned_to t \<noteq> None \<and> a_id (deref s (the (t_assigned_to t))) = v)"
  by (cases "t_assigned_to t") (auto simp: task_from_dict_def)

lemma task_from_dict_assigned':
  "(\<exists>A. Agent_id A = v \<and> Task_assigned_to (task_from_dict s t) = Some A)
     \<longleftrightarrow> ((\<exists>y. t_assigned_to t = Some y) \<and> a_id (deref s (the (t_assigned_to t))) = v)"
  by (cases "t_assigned_to t") (auto simp: task_from_dict_def)


section \<open>The dashboard counts\<close>

lemma dict_keys_bump: "dict_keys (bump d k) = dict_keys d"
  by (auto simp: bump_def dict_keys_set_present split: option.splits)

lemma dict_get_bump:
  "dict_get (bump d k) k' = (if k' = k then map_option (\<lambda>c. c + 1) (dict_get d k') else dict_get d k')"
  by (auto simp: bump_def dict_get_set split: option.splits)

lemma tally_keys:
  "dict_keys (fst (tally ts bs bp)) = dict_keys bs \<and> dict_keys (snd (tally ts bs bp)) = dict_keys bp"
  by (induction ts arbitrary: bs bp) (simp_all add: dict_keys_bump)

lemma tally_status:
  "dict_get (fst (tally ts bs bp)) k =
     map_option (\<lambda>c. c + int (length (filter (\<lambda>t. t_status t = k) ts))) (dict_get bs k)"
  by (induction ts arbitrary: bs bp)
     (auto simp: dict_get_bump option.map_comp comp_def add.assoc option.map_ident)

lemma tally_priority:
  "dict_get (snd (tally ts bs bp)) k =
     map_option (\<lambda>c. c + int (length (filter (\<lambda>t. t_priority t = k) ts))) (dict_get bp k)"
  by (induction ts arbitrary: bs bp)
     (auto simp: dict_get_bump option.map_comp comp_def add.assoc option.map_ident)

lemma sum_values:
  "distinct (map fst d) \<Longrightarrow> sum_list (map snd d) = (\<Sum>p\<leftarrow>d. the (dict_get d (fst p)))"
proof (induction d)
  case Nil
  show ?case by simp
next
  case (Cons p ps)
  have tail: "(\<Sum>q\<leftarrow>ps. the (dict_get (p # ps) (fst q))) = (\<Sum>q\<leftarrow>ps. the (dict_get ps (fst q)))"
    using Cons.prems by (intro arg_cong [where f = sum_list] map_cong) auto
  have head: "the (dict_get (p # ps) (fst p)) = snd p" by simp
  from Cons have IH: "sum_list (map snd ps) = (\<Sum>q\<leftarrow>ps. the (dict_get ps (fst q)))" by simp
  show ?case
    unfolding list.map sum_list.Cons head tail IH ..
qed

lemma count_members:
  "distinct ks \<Longrightarrow>
   int (length (filter (\<lambda>t. f t \<in> set ks) ts)) = (\<Sum>k\<leftarrow>ks. int (length (filter (\<lambda>t. f t = k) ts)))"
proof (induction ks)
  case Nil
  show ?case by simp
next
  case (Cons k ks)
  have "length (filter (\<lambda>t. f t \<in> set (k # ks)) ts)
        = length (filter (\<lambda>t. f t = k) ts) + length (filter (\<lambda>t. f t \<in> set ks) ts)"
    using Cons.prems by (induction ts) auto
  with Cons show ?case by simp
qed


lemma sum_counts:
  assumes "distinct (dict_keys d)"
    and "\<And>k. k \<in> set (dict_keys d) \<Longrightarrow> dict_get d k = Some (int (length (filter (\<lambda>t. f t = k) ts)))"
  shows "sum_list (dict_values d) = int (length (filter (\<lambda>t. f t \<in> set (dict_keys d)) ts))"
proof -
  have "sum_list (dict_values d) = (\<Sum>p\<leftarrow>d. the (dict_get d (fst p)))"
    using assms(1) by (simp add: dict_values_def dict_keys_def sum_values)
  also have "\<dots> = (\<Sum>k\<leftarrow>dict_keys d. the (dict_get d k))"
    by (simp add: dict_keys_def comp_def)
  also have "\<dots> = (\<Sum>k\<leftarrow>dict_keys d. int (length (filter (\<lambda>t. f t = k) ts)))"
    using assms(2) by (intro arg_cong [where f = sum_list] map_cong) auto
  also have "\<dots> = int (length (filter (\<lambda>t. f t \<in> set (dict_keys d)) ts))"
    using assms(1) by (simp add: count_members)
  finally show ?thesis .
qed

lemma dashboard_total: "DashboardResponse_total (get_dashboard s) = int (length (dict_values (tasks s)))"
  by (simp add: get_dashboard_def Let_def split_beta)

lemma dashboard_by_status:
  "DashboardResponse_by_status (get_dashboard s) =
     fst (tally (dict_values (tasks s))
            [(''todo'', 0), (''in_progress'', 0), (''review'', 0), (''done'', 0)]
            [(''low'', 0), (''medium'', 0), (''high'', 0)])"
  by (simp add: get_dashboard_def Let_def split_beta)

lemma dashboard_by_priority:
  "DashboardResponse_by_priority (get_dashboard s) =
     snd (tally (dict_values (tasks s))
            [(''todo'', 0), (''in_progress'', 0), (''review'', 0), (''done'', 0)]
            [(''low'', 0), (''medium'', 0), (''high'', 0)])"
  by (simp add: get_dashboard_def Let_def split_beta)

lemma by_status_keys:
  "dict_keys (DashboardResponse_by_status (get_dashboard s)) = [''todo'', ''in_progress'', ''review'', ''done'']"
  by (simp add: dashboard_by_status tally_keys) (simp add: dict_keys_def)

lemma by_priority_keys:
  "dict_keys (DashboardResponse_by_priority (get_dashboard s)) = [''low'', ''medium'', ''high'']"
  by (simp add: dashboard_by_priority tally_keys) (simp add: dict_keys_def)

lemma by_status_count:
  "k \<in> VALID_STATUSES \<Longrightarrow>
   dict_get (DashboardResponse_by_status (get_dashboard s)) k
     = Some (int (length (filter (\<lambda>t. t_status t = k) (dict_values (tasks s)))))"
  by (auto simp: dashboard_by_status tally_status VALID_STATUSES_def)

lemma by_priority_count:
  "k \<in> VALID_PRIORITIES \<Longrightarrow>
   dict_get (DashboardResponse_by_priority (get_dashboard s)) k
     = Some (int (length (filter (\<lambda>t. t_priority t = k) (dict_values (tasks s)))))"
  by (auto simp: dashboard_by_priority tally_priority VALID_PRIORITIES_def)

lemma by_status_sum:
  "sum_list (dict_values (DashboardResponse_by_status (get_dashboard s)))
     = int (length (filter (\<lambda>t. t_status t \<in> VALID_STATUSES) (dict_values (tasks s))))"
proof -
  have "set (dict_keys (DashboardResponse_by_status (get_dashboard s))) = VALID_STATUSES"
    by (simp add: by_status_keys VALID_STATUSES_def)
  moreover have "distinct (dict_keys (DashboardResponse_by_status (get_dashboard s)))"
    by (simp add: by_status_keys)
  ultimately show ?thesis
    using sum_counts [of "DashboardResponse_by_status (get_dashboard s)" t_status "dict_values (tasks s)"]
    by (simp add: by_status_count)
qed

lemma by_priority_sum:
  "sum_list (dict_values (DashboardResponse_by_priority (get_dashboard s)))
     = int (length (filter (\<lambda>t. t_priority t \<in> VALID_PRIORITIES) (dict_values (tasks s))))"
proof -
  have "set (dict_keys (DashboardResponse_by_priority (get_dashboard s))) = VALID_PRIORITIES"
    by (simp add: by_priority_keys VALID_PRIORITIES_def)
  moreover have "distinct (dict_keys (DashboardResponse_by_priority (get_dashboard s)))"
    by (simp add: by_priority_keys)
  ultimately show ?thesis
    using sum_counts [of "DashboardResponse_by_priority (get_dashboard s)" t_priority "dict_values (tasks s)"]
    by (simp add: by_priority_count)
qed

lemma enum_ok_sums:
  assumes "enum_ok s"
  shows "sum_list (dict_values (DashboardResponse_by_status (get_dashboard s))) = DashboardResponse_total (get_dashboard s)"
    and "sum_list (dict_values (DashboardResponse_by_priority (get_dashboard s))) = DashboardResponse_total (get_dashboard s)"
proof -
  from assms have "filter (\<lambda>t. t_status t \<in> VALID_STATUSES) (dict_values (tasks s)) = dict_values (tasks s)"
    by (auto simp: enum_ok_def intro: filter_True)
  then show "sum_list (dict_values (DashboardResponse_by_status (get_dashboard s))) = DashboardResponse_total (get_dashboard s)"
    by (simp add: by_status_sum dashboard_total)
  from assms have "filter (\<lambda>t. t_priority t \<in> VALID_PRIORITIES) (dict_values (tasks s)) = dict_values (tasks s)"
    by (auto simp: enum_ok_def intro: filter_True)
  then show "sum_list (dict_values (DashboardResponse_by_priority (get_dashboard s))) = DashboardResponse_total (get_dashboard s)"
    by (simp add: by_priority_sum dashboard_total)
qed

lemma length_list_tasks_status:
  "length (list_tasks (Some k) None None s) = length (filter (\<lambda>t. t_status t = k) (dict_values (tasks s)))"
  by (simp add: list_tasks_def)

lemma length_list_tasks_priority:
  "length (list_tasks None None (Some k) s) = length (filter (\<lambda>t. t_priority t = k) (dict_values (tasks s)))"
  by (simp add: list_tasks_def)


section \<open>Evaluating the example\<close>

lemmas model_defs =
  init_def alloc_def deref_def agent_from_dict_def create_agent_def list_agents_def get_agent_def
  task_from_dict_def get_task_or_404_def create_task_def list_tasks_def update_task_status_def
  assign_task_def get_task_def update_task_def delete_task_def bump_def get_dashboard_def
  answer_def new_TaskCreate_def new_TaskUpdate_def new_StatusUpdate_def
  TaskCreate_validate_priority_def TaskUpdate_validate_priority_def
  StatusUpdate_validate_status_def VALID_PRIORITIES_def VALID_STATUSES_def
  dict_values_def dict_keys_def Let_def

lemma run_h_demo: "run h_demo = s_demo"
  by (simp add: h_demo_def s_demo_def model_defs)


section \<open>Creating a task\<close>

text \<open>
  Claim C1. Every call of the create endpoint stores and returns the same task: its id
  is the generated id, its title, description and priority are those of the body, its
  status is "todo", its created_at is the current time, its updated_at and assigned_to
  are null. A create request whose priority is left out or is one of the three valid
  priorities reaches the endpoint, with the supplied priority, or with "medium" when
  none was supplied; a request with any other priority is refused by the validator and
  stores nothing.
\<close>

theorem C1_create_task:
  "(\<exists>T r s'.
        create_task body uuid now s = (T, s')
      \<and> dict_get (tasks s') uuid = Some r \<and> task_from_dict s' r = T
      \<and> get_task uuid s' = Inr T
      \<and> Task_id T = uuid \<and> Task_title T = TaskCreate_title body
      \<and> Task_description T = TaskCreate_description body
      \<and> Task_priority T = TaskCreate_priority body
      \<and> Task_status T = ''todo'' \<and> Task_created_at T = now
      \<and> Task_updated_at T = None \<and> Task_assigned_to T = None
      \<and> t_id r = uuid \<and> t_title r = TaskCreate_title body
      \<and> t_description r = TaskCreate_description body
      \<and> t_priority r = TaskCreate_priority body
      \<and> t_status r = ''todo'' \<and> t_created_at r = now
      \<and> t_updated_at r = None \<and> t_assigned_to r = None)
   \<and> ((case priority of None \<Rightarrow> True | Some v \<Rightarrow> v \<in> VALID_PRIORITIES) \<longrightarrow>
        (\<exists>T r s'.
           handle (CreateTask title description priority) uuid now s = (Inr (RTask T), s')
         \<and> dict_get (tasks s') uuid = Some r \<and> task_from_dict s' r = T
         \<and> get_task uuid s' = Inr T
         \<and> Task_id T = uuid \<and> Task_title T = title \<and> Task_description T = description
         \<and> Task_priority T = (case priority of None \<Rightarrow> ''medium'' | Some v \<Rightarrow> v)
         \<and> Task_status T = ''todo'' \<and> Task_created_at T = now
         \<and> Task_updated_at T = None \<and> Task_assigned_to T = None
         \<and> t_id r = uuid \<and> t_title r = title \<and> t_description r = description
         \<and> t_priority r = (case priority of None \<Rightarrow> ''medium'' | Some v \<Rightarrow> v)
         \<and> t_status r = ''todo'' \<and> t_created_at r = now
         \<and> t_updated_at r = None \<and> t_assigned_to r = None))
   \<and> ((case priority of None \<Rightarrow> False | Some v \<Rightarrow> v \<notin> VALID_PRIORITIES) \<longrightarrow>
        handle (CreateTask title description priority) uuid now s
          = (Inl (ValidationError ''priority''), s))"
proof (intro conjI impI)
  show "\<exists>T r s'.
        create_task body uuid now s = (T, s')
      \<and> dict_get (tasks s') uuid = Some r \<and> task_from_dict s' r = T
      \<and> get_task uuid s' = Inr T
      \<and> Task_id T = uuid \<and> Task_title T = TaskCreate_title body
      \<and> Task_description T = TaskCreate_description body
      \<and> Task_priority T = TaskCreate_priority body
      \<and> Task_status T = ''todo'' \<and> Task_created_at T = now
      \<and> Task_updated_at T = None \<and> Task_assigned_to T = None
      \<and> t_id r = uuid \<and> t_title r = TaskCreate_title body
      \<and> t_description r = TaskCreate_description body
      \<and> t_priority r = TaskCreate_priority body
      \<and> t_status r = ''todo'' \<and> t_created_at r = now
      \<and> t_updated_at r = None \<and> t_assigned_to r = None"
    by (simp add: create_task_def task_from_dict_def dict_get_set get_task_def
          get_task_or_404_def)
next
  assume "case priority of None \<Rightarrow> True | Some v \<Rightarrow> v \<in> VALID_PRIORITIES"
  then show "\<exists>T r s'.
           handle (CreateTask title description priority) uuid now s = (Inr (RTask T), s')
         \<and> dict_get (tasks s') uuid = Some r \<and> task_from_dict s' r = T
         \<and> get_task uuid s' = Inr T
         \<and> Task_id T = uuid \<and> Task_title T = title \<and> Task_description T = description
         \<and> Task_priority T = (case priority of None \<Rightarrow> ''medium'' | Some v \<Rightarrow> v)
         \<and> Task_status T = ''todo'' \<and> Task_created_at T = now
         \<and> Task_updated_at T = None \<and> Task_assigned_to T = None
         \<and> t_id r = uuid \<and> t_title r = title \<and> t_description r = description
         \<and> t_priority r = (case priority of None \<Rightarrow> ''medium'' | Some v \<Rightarrow> v)
         \<and> t_status r = ''todo'' \<and> t_created_at r = now
         \<and> t_updated_at r = None \<and> t_assigned_to r = None"
    by (cases priority)
       (simp_all add: new_TaskCreate_def TaskCreate_validate_priority_def create_task_def
          task_from_dict_def dict_get_set get_task_def get_task_or_404_def)
next
  assume "case priority of None \<Rightarrow> False | Some v \<Rightarrow> v \<notin> VALID_PRIORITIES"
  then show "handle (CreateTask title description priority) uuid now s
          = (Inl (ValidationError ''priority''), s)"
    by (cases priority) (simp_all add: new_TaskCreate_def TaskCreate_validate_priority_def)
qed

theorem C1_create_task_witness:
  "(case None :: string option of None \<Rightarrow> True | Some v \<Rightarrow> v \<in> VALID_PRIORITIES)
   \<and> (\<exists>T r s'.
           handle (CreateTask ''T'' ''D'' None) ''task-1'' ''2026-01-01T00:01:00+00:00'' init
             = (Inr (RTask T), s')
         \<and> dict_get (tasks s') ''task-1'' = Some r \<and> task_from_dict s' r = T
         \<and> get_task ''task-1'' s' = Inr T
         \<and> Task_id T = ''task-1'' \<and> Task_priority T = ''medium'' \<and> Task_status T = ''todo''
         \<and> Task_created_at T = ''2026-01-01T00:01:00+00:00''
         \<and> Task_updated_at T = None \<and> Task_assigned_to T = None)
   \<and> (case Some ''high'' of None \<Rightarrow> True | Some v \<Rightarrow> v \<in> VALID_PRIORITIES)
   \<and> (\<exists>T s'.
           handle (CreateTask ''T'' ''D'' (Some ''high'')) ''task-1'' ''2026-01-01T00:01:00+00:00''
             init = (Inr (RTask T), s')
         \<and> get_task ''task-1'' s' = Inr T \<and> Task_priority T = ''high'')
   \<and> (case Some ''urgent'' of None \<Rightarrow> False | Some v \<Rightarrow> v \<notin> VALID_PRIORITIES)
   \<and> handle (CreateTask ''T'' ''D'' (Some ''urgent'')) ''task-1'' ''2026-01-01T00:01:00+00:00''
        init = (Inl (ValidationError ''priority''), init)"
proof -
  let ?now = "''2026-01-01T00:01:00+00:00''"
  let ?b = "\<lparr>TaskCreate_title = ''T'', TaskCreate_description = ''D'', TaskCreate_priority = ''low''\<rparr>"
  have h1: "case None :: string option of None \<Rightarrow> True | Some v \<Rightarrow> v \<in> VALID_PRIORITIES"
    by simp
  have h2: "case Some ''high'' of None \<Rightarrow> True | Some v \<Rightarrow> v \<in> VALID_PRIORITIES"
    by (simp add: VALID_PRIORITIES_def)
  have h3: "case Some ''urgent'' of None \<Rightarrow> False | Some v \<Rightarrow> v \<notin> VALID_PRIORITIES"
    by (simp add: VALID_PRIORITIES_def)
  from C1_create_task [of ?b "''task-1''" ?now init None "''T''" "''D''",
         THEN conjunct2, THEN conjunct1, THEN mp, OF h1]
  have a: "\<exists>T r s'.
           handle (CreateTask ''T'' ''D'' None) ''task-1'' ?now init = (Inr (RTask T), s')
         \<and> dict_get (tasks s') ''task-1'' = Some r \<and> task_from_dict s' r = T
         \<and> get_task ''task-1'' s' = Inr T
         \<and> Task_id T = ''task-1'' \<and> Task_priority T = ''medium'' \<and> Task_status T = ''todo''
         \<and> Task_created_at T = ?now
         \<and> Task_updated_at T = None \<and> Task_assigned_to T = None"
    by auto
  from C1_create_task [of ?b "''task-1''" ?now init "Some ''high''" "''T''" "''D''",
         THEN conjunct2, THEN conjunct1, THEN mp, OF h2]
  have b: "\<exists>T s'.
           handle (CreateTask ''T'' ''D'' (Some ''high'')) ''task-1'' ?now init = (Inr (RTask T), s')
         \<and> get_task ''task-1'' s' = Inr T \<and> Task_priority T = ''high''"
    by auto
  from C1_create_task [of ?b "''task-1''" ?now init "Some ''urgent''" "''T''" "''D''",
         THEN conjunct2, THEN conjunct2, THEN mp, OF h3]
  have c: "handle (CreateTask ''T'' ''D'' (Some ''urgent'')) ''task-1'' ?now init
             = (Inl (ValidationError ''priority''), init)" .
  from h1 a h2 b h3 c show ?thesis by blast
qed


section \<open>The enumerations\<close>

text \<open>
  Claim C2. In every state that a sequence of requests can reach from the empty store,
  the priority of every stored task is one of low, medium, high and its status is one
  of todo, in_progress, review, done. A request whose priority or status is outside
  its enumeration is refused by the validator before it reaches the storage.
\<close>

theorem C2_enumerations:
  "\<forall>t \<in> set (dict_values (tasks (run h))).
     t_priority t \<in> VALID_PRIORITIES \<and> t_status t \<in> VALID_STATUSES"
  using enum_ok_run [of h] by (simp add: enum_ok_def)

theorem C2_enumerations_witness:
  "\<exists>t. t \<in> set (dict_values (tasks (run h_demo)))
       \<and> t_priority t \<in> VALID_PRIORITIES \<and> t_status t \<in> VALID_STATUSES"
proof -
  obtain t where t: "dict_get (tasks (run h_demo)) ''task-2'' = Some t"
    by (simp add: run_h_demo s_demo_def)
  then have mem: "t \<in> set (dict_values (tasks (run h_demo)))"
    by (rule dict_get_Some_values)
  with C2_enumerations [of h_demo]
  have "t_priority t \<in> VALID_PRIORITIES \<and> t_status t \<in> VALID_STATUSES" by (rule bspec)
  with mem show ?thesis by blast
qed


section \<open>The update timestamp\<close>

text \<open>
  Claim C3. In every reachable state, the updated_at of a stored task is null exactly
  when no update, status change or assignment of that task has succeeded since the
  task was created; and every such request that succeeds leaves the task with
  updated_at equal to the current time.
\<close>

theorem C3_updated_at:
  "(\<forall>t. dict_get (tasks (run h)) task_id = Some t \<longrightarrow>
         (t_updated_at t = None \<longleftrightarrow> \<not> mutated_since_creation task_id h))
   \<and> (mutating req = Some task_id \<and> succeeds req uuid now s \<longrightarrow>
        (\<exists>t. dict_get (tasks (snd (handle req uuid now s))) task_id = Some t
              \<and> t_updated_at t = Some now))"
  using updated_at_history succeeds_mutating by blast

theorem C3_updated_at_witness:
  "(\<exists>t. dict_get (tasks (run h_demo)) ''task-3'' = Some t \<and> t_updated_at t = None
         \<and> \<not> mutated_since_creation ''task-3'' h_demo)
   \<and> (\<exists>t. dict_get (tasks (run h_demo)) ''task-1'' = Some t
         \<and> t_updated_at t = Some ''2026-01-01T00:05:00+00:00''
         \<and> mutated_since_creation ''task-1'' h_demo)
   \<and> mutating (SetStatus ''task-3'' ''review'') = Some ''task-3''
   \<and> succeeds (SetStatus ''task-3'' ''review'') [] ''2026-01-01T00:09:00+00:00'' (run h_demo)
   \<and> (\<exists>t. dict_get (tasks (snd (handle (SetStatus ''task-3'' ''review'') []
                ''2026-01-01T00:09:00+00:00'' (run h_demo)))) ''task-3'' = Some t
         \<and> t_updated_at t = Some ''2026-01-01T00:09:00+00:00'')"
proof -
  obtain t3 where t3: "dict_get (tasks (run h_demo)) ''task-3'' = Some t3" "t_updated_at t3 = None"
    by (simp add: run_h_demo s_demo_def)
  obtain t1 where t1: "dict_get (tasks (run h_demo)) ''task-1'' = Some t1"
      "t_updated_at t1 = Some ''2026-01-01T00:05:00+00:00''"
    by (simp add: run_h_demo s_demo_def)
  have m: "mutating (SetStatus ''task-3'' ''review'') = Some ''task-3''" by simp
  have ok: "succeeds (SetStatus ''task-3'' ''review'') [] ''2026-01-01T00:09:00+00:00'' (run h_demo)"
    by (simp add: succeeds_def run_h_demo s_demo_def model_defs)
  note thm3 = C3_updated_at [of h_demo "''task-3''" "SetStatus ''task-3'' ''review''" "[]"
                  "''2026-01-01T00:09:00+00:00''" "run h_demo"]
  note thm1 = C3_updated_at [of h_demo "''task-1''" "SetStatus ''task-3'' ''review''" "[]"
                  "''2026-01-01T00:09:00+00:00''" "run h_demo"]
  from thm3 t3 have a: "\<not> mutated_since_creation ''task-3'' h_demo" by blast
  from thm1 t1 have b: "mutated_since_creation ''task-1'' h_demo" by auto
  from thm3 m ok
  have c: "\<exists>t. dict_get (tasks (snd (handle (SetStatus ''task-3'' ''review'') []
                ''2026-01-01T00:09:00+00:00'' (run h_demo)))) ''task-3'' = Some t
         \<and> t_updated_at t = Some ''2026-01-01T00:09:00+00:00''" by blast
  from t3 t1 a b m ok c show ?thesis by blast
qed


section \<open>Updating a task\<close>

text \<open>
  Claim C4. Updating a task whose id is absent fails with "Task not found" and leaves
  the state as it was. Updating a stored task overwrites the title, the description
  and the priority that the body supplies, keeps each of these that it omits, keeps
  id, status, created_at and assigned_to, and sets updated_at to the current time on
  every call: with a body that supplies nothing, the record changes in updated_at
  alone. Every other task, the order of the tasks and the agents are unchanged.
\<close>

theorem C4_update_task:
  "(dict_get (tasks s) task_id = None \<longrightarrow>
      update_task task_id body now s = (Inl (NotFound ''Task not found''), s))
   \<and> (\<forall>r. dict_get (tasks s) task_id = Some r \<longrightarrow>
        (\<exists>T r' s'.
            update_task task_id body now s = (Inr T, s')
          \<and> dict_get (tasks s') task_id = Some r' \<and> T = task_from_dict s' r'
          \<and> t_title r' = (case TaskUpdate_title body of None \<Rightarrow> t_title r | Some v \<Rightarrow> v)
          \<and> t_description r' =
              (case TaskUpdate_description body of None \<Rightarrow> t_description r | Some v \<Rightarrow> v)
          \<and> t_priority r' =
              (case TaskUpdate_priority body of None \<Rightarrow> t_priority r | Some v \<Rightarrow> v)
          \<and> t_updated_at r' = Some now
          \<and> t_id r' = t_id r \<and> t_status r' = t_status r
          \<and> t_created_at r' = t_created_at r \<and> t_assigned_to r' = t_assigned_to r
          \<and> (TaskUpdate_title body = None \<and> TaskUpdate_description body = None
               \<and> TaskUpdate_priority body = None \<longrightarrow> r' = r\<lparr>t_updated_at := Some now\<rparr>)
          \<and> (\<forall>k. k \<noteq> task_id \<longrightarrow> dict_get (tasks s') k = dict_get (tasks s) k)
          \<and> dict_keys (tasks s') = dict_keys (tasks s)
          \<and> agents s' = agents s \<and> objs s' = objs s))"
  by (auto simp: update_task_def get_task_or_404_def dict_get_set dict_keys_set_present Let_def
           split: option.splits)

theorem C4_update_task_witness:
  "dict_get (tasks s_demo) ''nope'' = None
   \<and> update_task ''nope''
        \<lparr>TaskUpdate_title = Some ''New'', TaskUpdate_description = None, TaskUpdate_priority = None\<rparr>
        ''2026-01-01T00:09:00+00:00'' s_demo = (Inl (NotFound ''Task not found''), s_demo)
   \<and> (\<exists>r. dict_get (tasks s_demo) ''task-3'' = Some r
        \<and> (\<exists>T r' s'.
              update_task ''task-3''
                \<lparr>TaskUpdate_title = Some ''New'', TaskUpdate_description = None,
                 TaskUpdate_priority = None\<rparr> ''2026-01-01T00:09:00+00:00'' s_demo = (Inr T, s')
            \<and> dict_get (tasks s') ''task-3'' = Some r' \<and> T = task_from_dict s' r'
            \<and> t_title r' = ''New'' \<and> t_description r' = ''Ship it'' \<and> t_priority r' = ''low''
            \<and> t_updated_at r' = Some ''2026-01-01T00:09:00+00:00''
            \<and> t_status r' = ''todo'' \<and> t_assigned_to r' = None)
        \<and> (\<exists>T r' s'.
              update_task ''task-3''
                \<lparr>TaskUpdate_title = None, TaskUpdate_description = None,
                 TaskUpdate_priority = None\<rparr> ''2026-01-01T00:09:00+00:00'' s_demo = (Inr T, s')
            \<and> dict_get (tasks s') ''task-3'' = Some r'
            \<and> r' = r\<lparr>t_updated_at := Some ''2026-01-01T00:09:00+00:00''\<rparr>))"
proof -
  let ?b1 = "\<lparr>TaskUpdate_title = Some ''New'', TaskUpdate_description = None,
              TaskUpdate_priority = None\<rparr>"
  let ?b0 = "\<lparr>TaskUpdate_title = None, TaskUpdate_description = None,
              TaskUpdate_priority = None\<rparr>"
  let ?now = "''2026-01-01T00:09:00+00:00''"
  have absent: "dict_get (tasks s_demo) ''nope'' = None" by (simp add: s_demo_def)
  obtain r where r: "dict_get (tasks s_demo) ''task-3'' = Some r"
    and fields: "t_description r = ''Ship it''" "t_priority r = ''low''" "t_status r = ''todo''"
      "t_assigned_to r = None"
    by (simp add: s_demo_def)
  from C4_update_task [of s_demo "''nope''" ?b1 ?now] absent
  have a: "update_task ''nope'' ?b1 ?now s_demo = (Inl (NotFound ''Task not found''), s_demo)"
    by blast
  from C4_update_task [of s_demo "''task-3''" ?b1 ?now] r fields
  have b: "\<exists>T r' s'.
              update_task ''task-3'' ?b1 ?now s_demo = (Inr T, s')
            \<and> dict_get (tasks s') ''task-3'' = Some r' \<and> T = task_from_dict s' r'
            \<and> t_title r' = ''New'' \<and> t_description r' = ''Ship it'' \<and> t_priority r' = ''low''
            \<and> t_updated_at r' = Some ?now
            \<and> t_status r' = ''todo'' \<and> t_assigned_to r' = None"
    by (auto simp del: dict_get.simps)
  from C4_update_task [of s_demo "''task-3''" ?b0 ?now] r
  have c: "\<exists>T r' s'.
              update_task ''task-3'' ?b0 ?now s_demo = (Inr T, s')
            \<and> dict_get (tasks s') ''task-3'' = Some r'
            \<and> r' = r\<lparr>t_updated_at := Some ?now\<rparr>"
    by (auto simp del: dict_get.simps)
  from absent a r b c show ?thesis by blast
qed


section \<open>Listing tasks with filters\<close>

text \<open>
  Claim C5. The list of tasks for the filters status, assigned_to and priority is the
  list of all tasks, in the order of the store, restricted to the tasks that match
  every filter that is supplied: the status is equal to the status filter, the task
  has an assigned_to whose id is equal to the assigned_to filter (a task with no
  assignment never matches), and the priority is equal to the priority filter. With no
  filter the list is every stored task in the order of the store.
\<close>

theorem C5_list_tasks:
  "list_tasks status_filter assigned_to priority s =
     filter (\<lambda>T. (\<forall>v. status_filter = Some v \<longrightarrow> Task_status T = v)
               \<and> (\<forall>v. assigned_to = Some v \<longrightarrow>
                      (\<exists>A. Task_assigned_to T = Some A \<and> Agent_id A = v))
               \<and> (\<forall>v. priority = Some v \<longrightarrow> Task_priority T = v))
       (list_tasks None None None s)
   \<and> list_tasks None None None s = map (task_from_dict s) (dict_values (tasks s))"
proof
  show "list_tasks None None None s = map (task_from_dict s) (dict_values (tasks s))"
    by (rule list_tasks_unfiltered)
next
  show "list_tasks status_filter assigned_to priority s =
     filter (\<lambda>T. (\<forall>v. status_filter = Some v \<longrightarrow> Task_status T = v)
               \<and> (\<forall>v. assigned_to = Some v \<longrightarrow>
                      (\<exists>A. Task_assigned_to T = Some A \<and> Agent_id A = v))
               \<and> (\<forall>v. priority = Some v \<longrightarrow> Task_priority T = v))
       (list_tasks None None None s)"
    unfolding list_tasks_unfiltered filter_map
    by (cases status_filter; cases assigned_to; cases priority)
       (simp_all add: list_tasks_def comp_def task_from_dict_assigned' conj_commute conj_left_commute
          cong: filter_cong)
qed

theorem C5_list_tasks_witness:
  "list_tasks (Some ''todo'') None (Some ''low'') s_demo
     = filter (\<lambda>T. Task_status T = ''todo'' \<and> Task_priority T = ''low'')
         (list_tasks None None None s_demo)
   \<and> list_tasks (Some ''todo'') (Some ''agent-1'') None s_demo
     = filter (\<lambda>T. Task_status T = ''todo''
                 \<and> (\<exists>A. Task_assigned_to T = Some A \<and> Agent_id A = ''agent-1''))
         (list_tasks None None None s_demo)
   \<and> map Task_id (list_tasks None None None s_demo) = [''task-1'', ''task-2'', ''task-3'']
   \<and> map Task_id (list_tasks (Some ''todo'') None (Some ''low'') s_demo) = [''task-3'']
   \<and> map Task_id (list_tasks (Some ''todo'') (Some ''agent-1'') None s_demo) = [''task-1'']"
proof -
  have all: "list_tasks None None None s_demo = map (task_from_dict s_demo) (dict_values (tasks s_demo))"
    using C5_list_tasks [of None None None s_demo] by blast
  have a: "list_tasks (Some ''todo'') None (Some ''low'') s_demo
     = filter (\<lambda>T. Task_status T = ''todo'' \<and> Task_priority T = ''low'')
         (list_tasks None None None s_demo)"
    using C5_list_tasks [of "Some ''todo''" None "Some ''low''" s_demo] by simp
  have b: "list_tasks (Some ''todo'') (Some ''agent-1'') None s_demo
     = filter (\<lambda>T. Task_status T = ''todo''
                 \<and> (\<exists>A. Task_assigned_to T = Some A \<and> Agent_id A = ''agent-1''))
         (list_tasks None None None s_demo)"
    using C5_list_tasks [of "Some ''todo''" "Some ''agent-1''" None s_demo] by simp
  have c: "map Task_id (list_tasks None None None s_demo) = [''task-1'', ''task-2'', ''task-3'']"
    unfolding all by (simp add: s_demo_def dict_values_def task_from_dict_def)
  have d: "map Task_id (list_tasks (Some ''todo'') None (Some ''low'') s_demo) = [''task-3'']"
    unfolding a all by (simp add: s_demo_def dict_values_def task_from_dict_def)
  have e: "map Task_id (list_tasks (Some ''todo'') (Some ''agent-1'') None s_demo) = [''task-1'']"
    unfolding b all by (simp add: s_demo_def dict_values_def task_from_dict_def deref_def)
  from a b c d e show ?thesis by blast
qed


section \<open>Assigning a task: the failures\<close>

text \<open>
  Claim C6. Assigning a task whose id is absent fails with "Task not found", whether
  the agent exists or not (the task is looked up first); assigning a stored task to an
  agent whose id is absent fails with "Agent not found". In both cases the state
  returned is the state the call started in, so the assigned_to and the updated_at of
  the task are what they were.
\<close>

theorem C6_assign_task_failures:
  "(dict_get (tasks s) task_id = None \<longrightarrow>
      assign_task task_id body now s = (Inl (NotFound ''Task not found''), s))
   \<and> (dict_get (tasks s) task_id \<noteq> None
        \<and> dict_get (agents s) (AssignUpdate_agent_id body) = None \<longrightarrow>
      assign_task task_id body now s = (Inl (NotFound ''Agent not found''), s))"
  by (auto simp: assign_task_def get_task_or_404_def split: option.splits)

theorem C6_assign_task_failures_witness:
  "dict_get (tasks s_demo) ''nope'' = None
   \<and> assign_task ''nope'' \<lparr>AssignUpdate_agent_id = ''agent-1''\<rparr> ''2026-01-01T00:09:00+00:00'' s_demo
       = (Inl (NotFound ''Task not found''), s_demo)
   \<and> assign_task ''nope'' \<lparr>AssignUpdate_agent_id = ''ghost''\<rparr> ''2026-01-01T00:09:00+00:00'' s_demo
       = (Inl (NotFound ''Task not found''), s_demo)
   \<and> dict_get (tasks s_demo) ''task-3'' \<noteq> None
   \<and> dict_get (agents s_demo) (AssignUpdate_agent_id \<lparr>AssignUpdate_agent_id = ''ghost''\<rparr>) = None
   \<and> assign_task ''task-3'' \<lparr>AssignUpdate_agent_id = ''ghost''\<rparr> ''2026-01-01T00:09:00+00:00'' s_demo
       = (Inl (NotFound ''Agent not found''), s_demo)"
proof -
  let ?now = "''2026-01-01T00:09:00+00:00''"
  have absent: "dict_get (tasks s_demo) ''nope'' = None" by (simp add: s_demo_def)
  have present: "dict_get (tasks s_demo) ''task-3'' \<noteq> None" by (simp add: s_demo_def)
  have ghost: "dict_get (agents s_demo) (AssignUpdate_agent_id \<lparr>AssignUpdate_agent_id = ''ghost''\<rparr>) = None"
    by (simp add: s_demo_def)
  from C6_assign_task_failures [of s_demo "''nope''" "\<lparr>AssignUpdate_agent_id = ''agent-1''\<rparr>" ?now]
    absent
  have a: "assign_task ''nope'' \<lparr>AssignUpdate_agent_id = ''agent-1''\<rparr> ?now s_demo
       = (Inl (NotFound ''Task not found''), s_demo)" by blast
  from C6_assign_task_failures [of s_demo "''nope''" "\<lparr>AssignUpdate_agent_id = ''ghost''\<rparr>" ?now]
    absent
  have b: "assign_task ''nope'' \<lparr>AssignUpdate_agent_id = ''ghost''\<rparr> ?now s_demo
       = (Inl (NotFound ''Task not found''), s_demo)" by blast
  from C6_assign_task_failures [of s_demo "''task-3''" "\<lparr>AssignUpdate_agent_id = ''ghost''\<rparr>" ?now]
    present ghost
  have c: "assign_task ''task-3'' \<lparr>AssignUpdate_agent_id = ''ghost''\<rparr> ?now s_demo
       = (Inl (NotFound ''Agent not found''), s_demo)" by blast
  from absent a b present ghost c show ?thesis by blast
qed


section \<open>Assigning a task: the snapshot\<close>

text \<open>
  Claim C7. In a reachable state, assigning a stored task to a stored agent succeeds,
  and reading the task afterwards gives the task that the assignment returned: the
  task as it was, with updated_at set to the current time and with assigned_to equal
  to the id, name and role that reading the agent gave at the time of the assignment,
  whatever assigned_to held before. The agent still reads the same. The snapshot is an
  object of its own: overwriting the record of any agent with any content leaves what
  reading the task gives unchanged.
\<close>

theorem C7_assign_then_get:
  assumes "get_task task_id (run h) = Inr T0" and "get_agent agent_id (run h) = Inr A"
  shows "\<exists>T s'.
           assign_task task_id \<lparr>AssignUpdate_agent_id = agent_id\<rparr> now (run h) = (Inr T, s')
         \<and> get_task task_id s' = Inr T
         \<and> Task_assigned_to T = Some A
         \<and> T = T0\<lparr>Task_updated_at := Some now, Task_assigned_to := Some A\<rparr>
         \<and> get_agent agent_id s' = Inr A
         \<and> (\<forall>a x. a \<in> set (dict_values (agents s')) \<longrightarrow>
               get_task task_id (s'\<lparr>objs := (objs s')[a := x]\<rparr>) = Inr T)"
proof -
  let ?s = "run h"
  from assms(1) obtain r where r: "dict_get (tasks ?s) task_id = Some r"
    and T0: "T0 = task_from_dict ?s r" by (auto simp: get_task_Inr)
  from assms(2) obtain a where a: "dict_get (agents ?s) agent_id = Some a"
    and A: "A = agent_from_dict (deref ?s a)" by (auto simp: get_agent_Inr)
  have ok: "heap_ok ?s" by (rule heap_ok_run)
  from heap_ok_agent [OF ok a] have a_lt: "a < length (objs ?s)" .
  define snap where "snap = \<lparr>a_id = a_id (deref ?s a), a_name = a_name (deref ?s a),
                             a_role = a_role (deref ?s a)\<rparr>"
  define r' where "r' = r\<lparr>t_assigned_to := Some (length (objs ?s)), t_updated_at := Some now\<rparr>"
  define s' where "s' = ?s\<lparr>objs := objs ?s @ [snap], tasks := dict_set (tasks ?s) task_id r'\<rparr>"
  define T where "T = task_from_dict s' r'"
  have run: "assign_task task_id \<lparr>AssignUpdate_agent_id = agent_id\<rparr> now ?s = (Inr T, s')"
    using r a by (simp add: assign_task_def get_task_or_404_def alloc_def Let_def
                    snap_def r'_def s'_def T_def)
  have stored: "dict_get (tasks s') task_id = Some r'"
    by (simp add: s'_def dict_get_set)
  have get: "get_task task_id s' = Inr T"
    using stored by (simp add: get_task_Inr T_def)
  have snap_at: "deref s' (length (objs ?s)) = snap"
    by (simp add: deref_def s'_def)
  have assigned: "Task_assigned_to T = Some A"
    by (simp add: T_def task_from_dict_def r'_def snap_at A agent_from_dict_def snap_def)
  have T_eq: "T = T0\<lparr>Task_updated_at := Some now, Task_assigned_to := Some A\<rparr>"
    using assigned by (simp add: T_def T0 task_from_dict_def r'_def)
  have agent_kept: "get_agent agent_id s' = Inr A"
    using a a_lt by (simp add: get_agent_Inr s'_def A deref_def nth_append)
  have indep: "get_task task_id (s'\<lparr>objs := (objs s')[b := x]\<rparr>) = Inr T"
    if b: "b \<in> set (dict_values (agents s'))" for b x
  proof -
    from b ok have "b < length (objs ?s)" by (simp add: s'_def heap_ok_def)
    then have "deref (s'\<lparr>objs := (objs s')[b := x]\<rparr>) (length (objs ?s)) = snap"
      by (simp add: deref_def s'_def)
    with snap_at stored show ?thesis
      by (simp add: get_task_Inr T_def task_from_dict_def r'_def)
  qed
  from run get assigned T_eq agent_kept indep show ?thesis by blast
qed

theorem C7_assign_then_get_witness:
  "get_task ''task-1'' (run h_demo)
     = Inr \<lparr>Task_id = ''task-1'', Task_title = ''T'', Task_description = ''D'',
            Task_priority = ''medium'', Task_status = ''todo'',
            Task_created_at = ''2026-01-01T00:01:00+00:00'',
            Task_updated_at = Some ''2026-01-01T00:05:00+00:00'',
            Task_assigned_to =
              Some \<lparr>Agent_id = ''agent-1'', Agent_name = ''Alice'', Agent_role = ''senior_dev''\<rparr>\<rparr>
   \<and> get_agent ''agent-1'' (run h_demo)
     = Inr \<lparr>Agent_id = ''agent-1'', Agent_name = ''Alice'', Agent_role = ''senior_dev''\<rparr>
   \<and> (\<exists>T s'.
         assign_task ''task-1'' \<lparr>AssignUpdate_agent_id = ''agent-1''\<rparr>
           ''2026-01-01T00:09:00+00:00'' (run h_demo) = (Inr T, s')
       \<and> get_task ''task-1'' s' = Inr T
       \<and> Task_assigned_to T
           = Some \<lparr>Agent_id = ''agent-1'', Agent_name = ''Alice'', Agent_role = ''senior_dev''\<rparr>
       \<and> Task_updated_at T = Some ''2026-01-01T00:09:00+00:00''
       \<and> get_agent ''agent-1'' s'
           = Inr \<lparr>Agent_id = ''agent-1'', Agent_name = ''Alice'', Agent_role = ''senior_dev''\<rparr>
       \<and> (\<forall>a x. a \<in> set (dict_values (agents s')) \<longrightarrow>
             get_task ''task-1'' (s'\<lparr>objs := (objs s')[a := x]\<rparr>) = Inr T))"
proof -
  let ?A = "\<lparr>Agent_id = ''agent-1'', Agent_name = ''Alice'', Agent_role = ''senior_dev''\<rparr>"
  let ?T0 = "\<lparr>Task_id = ''task-1'', Task_title = ''T'', Task_description = ''D'',
            Task_priority = ''medium'', Task_status = ''todo'',
            Task_created_at = ''2026-01-01T00:01:00+00:00'',
            Task_updated_at = Some ''2026-01-01T00:05:00+00:00'',
            Task_assigned_to = Some ?A\<rparr>"
  have t: "get_task ''task-1'' (run h_demo) = Inr ?T0"
    by (simp add: run_h_demo s_demo_def get_task_def get_task_or_404_def task_from_dict_def deref_def)
  have a: "get_agent ''agent-1'' (run h_demo) = Inr ?A"
    by (simp add: run_h_demo s_demo_def get_agent_def agent_from_dict_def deref_def)
  from C7_assign_then_get [OF t a, of "''2026-01-01T00:09:00+00:00''"]
  have c: "\<exists>T s'.
         assign_task ''task-1'' \<lparr>AssignUpdate_agent_id = ''agent-1''\<rparr>
           ''2026-01-01T00:09:00+00:00'' (run h_demo) = (Inr T, s')
       \<and> get_task ''task-1'' s' = Inr T
       \<and> Task_assigned_to T = Some ?A
       \<and> Task_updated_at T = Some ''2026-01-01T00:09:00+00:00''
       \<and> get_agent ''agent-1'' s' = Inr ?A
       \<and> (\<forall>a x. a \<in> set (dict_values (agents s')) \<longrightarrow>
             get_task ''task-1'' (s'\<lparr>objs := (objs s')[a := x]\<rparr>) = Inr T)"
    by (elim exE conjE) (intro exI conjI, assumption+, simp, assumption+)
  from t a c show ?thesis by blast
qed


section \<open>The dashboard\<close>

text \<open>
  Claim C8. In every state the total of the dashboard is the number of tasks that the
  unfiltered list returns; by_status has exactly the four status keys and by_priority
  exactly the three priority keys; each key is mapped to the number of tasks with that
  value (the number the list filtered on that value returns); a task with a status or
  a priority outside its enumeration is left out of the counts of that dimension and
  raises no error, the counts of a dimension adding up to the number of tasks whose
  value is in the enumeration. In every state the store can be in, that is in every
  reachable state, and in any state whose tasks have their values in the enumerations,
  the counts of each dimension add up to the total.
\<close>

theorem C8_dashboard:
  "DashboardResponse_total (get_dashboard s) = int (length (list_tasks None None None s))
   \<and> dict_keys (DashboardResponse_by_status (get_dashboard s))
       = [''todo'', ''in_progress'', ''review'', ''done'']
   \<and> dict_keys (DashboardResponse_by_priority (get_dashboard s)) = [''low'', ''medium'', ''high'']
   \<and> (\<forall>k \<in> VALID_STATUSES.
         dict_get (DashboardResponse_by_status (get_dashboard s)) k
           = Some (int (length (list_tasks (Some k) None None s))))
   \<and> (\<forall>k \<in> VALID_PRIORITIES.
         dict_get (DashboardResponse_by_priority (get_dashboard s)) k
           = Some (int (length (list_tasks None None (Some k) s))))
   \<and> sum_list (dict_values (DashboardResponse_by_status (get_dashboard s)))
       = int (length (filter (\<lambda>t. t_status t \<in> VALID_STATUSES) (dict_values (tasks s))))
   \<and> sum_list (dict_values (DashboardResponse_by_priority (get_dashboard s)))
       = int (length (filter (\<lambda>t. t_priority t \<in> VALID_PRIORITIES) (dict_values (tasks s))))
   \<and> ((\<forall>t \<in> set (dict_values (tasks s)). t_status t \<in> VALID_STATUSES) \<longrightarrow>
        sum_list (dict_values (DashboardResponse_by_status (get_dashboard s)))
          = DashboardResponse_total (get_dashboard s))
   \<and> ((\<forall>t \<in> set (dict_values (tasks s)). t_priority t \<in> VALID_PRIORITIES) \<longrightarrow>
        sum_list (dict_values (DashboardResponse_by_priority (get_dashboard s)))
          = DashboardResponse_total (get_dashboard s))
   \<and> sum_list (dict_values (DashboardResponse_by_status (get_dashboard (run h))))
       = DashboardResponse_total (get_dashboard (run h))
   \<and> sum_list (dict_values (DashboardResponse_by_priority (get_dashboard (run h))))
       = DashboardResponse_total (get_dashboard (run h))"
proof -
  have st: "sum_list (dict_values (DashboardResponse_by_status (get_dashboard s)))
          = DashboardResponse_total (get_dashboard s)"
    if "\<forall>t \<in> set (dict_values (tasks s)). t_status t \<in> VALID_STATUSES"
  proof -
    from that have "filter (\<lambda>t. t_status t \<in> VALID_STATUSES) (dict_values (tasks s))
                    = dict_values (tasks s)"
      by (intro filter_True) simp
    then show ?thesis by (simp add: by_status_sum dashboard_total)
  qed
  have pr: "sum_list (dict_values (DashboardResponse_by_priority (get_dashboard s)))
          = DashboardResponse_total (get_dashboard s)"
    if "\<forall>t \<in> set (dict_values (tasks s)). t_priority t \<in> VALID_PRIORITIES"
  proof -
    from that have "filter (\<lambda>t. t_priority t \<in> VALID_PRIORITIES) (dict_values (tasks s))
                    = dict_values (tasks s)"
      by (intro filter_True) simp
    then show ?thesis by (simp add: by_priority_sum dashboard_total)
  qed
  show ?thesis
    using enum_ok_sums [OF enum_ok_run [of h]] st pr
    by (simp add: dashboard_total list_tasks_unfiltered by_status_keys by_priority_keys
          by_status_count by_priority_count length_list_tasks_status length_list_tasks_priority
          by_status_sum by_priority_sum)
qed

theorem C8_dashboard_witness:
  "''done'' \<in> VALID_STATUSES
   \<and> dict_get (DashboardResponse_by_status (get_dashboard (run h_demo))) ''done'' = Some 1
   \<and> ''todo'' \<in> VALID_STATUSES
   \<and> dict_get (DashboardResponse_by_status (get_dashboard (run h_demo))) ''todo'' = Some 2
   \<and> ''low'' \<in> VALID_PRIORITIES
   \<and> dict_get (DashboardResponse_by_priority (get_dashboard (run h_demo))) ''low'' = Some 1
   \<and> ''medium'' \<in> VALID_PRIORITIES
   \<and> dict_get (DashboardResponse_by_priority (get_dashboard (run h_demo))) ''medium'' = Some 1
   \<and> ''high'' \<in> VALID_PRIORITIES
   \<and> dict_get (DashboardResponse_by_priority (get_dashboard (run h_demo))) ''high'' = Some 1
   \<and> DashboardResponse_total (get_dashboard (run h_demo)) = 3
   \<and> sum_list (dict_values (DashboardResponse_by_status (get_dashboard (run h_demo)))) = 3
   \<and> sum_list (dict_values (DashboardResponse_by_priority (get_dashboard (run h_demo)))) = 3
   \<and> list_all (\<lambda>t. t_status t \<in> VALID_STATUSES) (dict_values (tasks (run h_demo)))
   \<and> sum_list (dict_values (DashboardResponse_by_status (get_dashboard (run h_demo))))
       = DashboardResponse_total (get_dashboard (run h_demo))
   \<and> list_all (\<lambda>t. t_priority t \<in> VALID_PRIORITIES) (dict_values (tasks (run h_demo)))
   \<and> sum_list (dict_values (DashboardResponse_by_priority (get_dashboard (run h_demo))))
       = DashboardResponse_total (get_dashboard (run h_demo))"
proof -
  note inst = C8_dashboard [of "run h_demo" h_demo]
  have v: "''done'' \<in> VALID_STATUSES" "''todo'' \<in> VALID_STATUSES"
    "''low'' \<in> VALID_PRIORITIES" "''medium'' \<in> VALID_PRIORITIES" "''high'' \<in> VALID_PRIORITIES"
    by (simp_all add: VALID_STATUSES_def VALID_PRIORITIES_def)
  have n: "length (list_tasks None None None (run h_demo)) = 3"
    "length (list_tasks (Some ''done'') None None (run h_demo)) = 1"
    "length (list_tasks (Some ''todo'') None None (run h_demo)) = 2"
    "length (list_tasks None None (Some ''low'') (run h_demo)) = 1"
    "length (list_tasks None None (Some ''medium'') (run h_demo)) = 1"
    "length (list_tasks None None (Some ''high'') (run h_demo)) = 1"
    by (simp_all add: run_h_demo s_demo_def list_tasks_def dict_values_def)
  from inst n(1) have tot: "DashboardResponse_total (get_dashboard (run h_demo)) = 3" by simp
  from inst v(1) n(2)
  have a: "dict_get (DashboardResponse_by_status (get_dashboard (run h_demo))) ''done'' = Some 1"
    by (metis of_nat_1)
  from inst v(2) n(3)
  have b: "dict_get (DashboardResponse_by_status (get_dashboard (run h_demo))) ''todo'' = Some 2"
    by (metis of_nat_numeral)
  from inst v(3) n(4)
  have c: "dict_get (DashboardResponse_by_priority (get_dashboard (run h_demo))) ''low'' = Some 1"
    by (metis of_nat_1)
  from inst v(4) n(5)
  have d: "dict_get (DashboardResponse_by_priority (get_dashboard (run h_demo))) ''medium'' = Some 1"
    by (metis of_nat_1)
  from inst v(5) n(6)
  have e: "dict_get (DashboardResponse_by_priority (get_dashboard (run h_demo))) ''high'' = Some 1"
    by (metis of_nat_1)
  from inst tot
  have f: "sum_list (dict_values (DashboardResponse_by_status (get_dashboard (run h_demo)))) = 3"
    "sum_list (dict_values (DashboardResponse_by_priority (get_dashboard (run h_demo)))) = 3"
    by simp_all
  have inv: "list_all (\<lambda>t. t_status t \<in> VALID_STATUSES) (dict_values (tasks (run h_demo)))"
    "list_all (\<lambda>t. t_priority t \<in> VALID_PRIORITIES) (dict_values (tasks (run h_demo)))"
    by (simp_all add: run_h_demo s_demo_def dict_values_def VALID_STATUSES_def
          VALID_PRIORITIES_def)
  from inst inv(1)
  have g: "sum_list (dict_values (DashboardResponse_by_status (get_dashboard (run h_demo))))
       = DashboardResponse_total (get_dashboard (run h_demo))"
    unfolding list_all_iff by blast
  from inst inv(2)
  have i: "sum_list (dict_values (DashboardResponse_by_priority (get_dashboard (run h_demo))))
       = DashboardResponse_total (get_dashboard (run h_demo))"
    unfolding list_all_iff by blast
  from v a b c d e tot f inv g i show ?thesis by blast
qed


section \<open>Deleting a task\<close>

text \<open>
  Claim C9. Deleting a task whose id is absent fails with "Task not found" and leaves
  the state as it was. Deleting a stored task removes the entry of that id: the task
  can no longer be read, every other task reads as before, the remaining entries keep
  their order, and where the keys are distinct there is exactly one entry less. The
  agents and their records are untouched: the list of agents and every read of an
  agent give what they gave before.
\<close>

theorem C9_delete_task:
  "(dict_get (tasks s) task_id = None \<longrightarrow>
      delete_task task_id s = (Inl (NotFound ''Task not found''), s))
   \<and> (dict_get (tasks s) task_id \<noteq> None \<longrightarrow>
        (\<exists>s'. delete_task task_id s = (Inr (), s')
          \<and> get_task task_id s' = Inl (NotFound ''Task not found'')
          \<and> (\<forall>k. k \<noteq> task_id \<longrightarrow> get_task k s' = get_task k s)
          \<and> tasks s' = filter (\<lambda>p. fst p \<noteq> task_id) (tasks s)
          \<and> (distinct (dict_keys (tasks s)) \<longrightarrow> length (tasks s') + 1 = length (tasks s))
          \<and> agents s' = agents s \<and> objs s' = objs s
          \<and> list_agents s' = list_agents s
          \<and> (\<forall>agent_id. get_agent agent_id s' = get_agent agent_id s)))"
  using length_dict_del [of "tasks s" task_id]
  by (auto simp: delete_task_def get_task_or_404_def get_task_def dict_get_del
        dict_del_filter [symmetric] list_agents_def get_agent_def deref_def task_from_dict_def
        split: option.splits)

theorem C9_delete_task_witness:
  "dict_get (tasks s_demo) ''nope'' = None
   \<and> delete_task ''nope'' s_demo = (Inl (NotFound ''Task not found''), s_demo)
   \<and> dict_get (tasks s_demo) ''task-1'' \<noteq> None
   \<and> distinct (dict_keys (tasks s_demo))
   \<and> (\<exists>s'. delete_task ''task-1'' s_demo = (Inr (), s')
          \<and> get_task ''task-1'' s' = Inl (NotFound ''Task not found'')
          \<and> get_task ''task-2'' s' = get_task ''task-2'' s_demo
          \<and> get_task ''task-3'' s' = get_task ''task-3'' s_demo
          \<and> length (tasks s') + 1 = length (tasks s_demo)
          \<and> agents s' = agents s_demo \<and> objs s' = objs s_demo
          \<and> list_agents s' = list_agents s_demo
          \<and> get_agent ''agent-1'' s' = get_agent ''agent-1'' s_demo)"
proof -
  have absent: "dict_get (tasks s_demo) ''nope'' = None" by (simp add: s_demo_def)
  have present: "dict_get (tasks s_demo) ''task-1'' \<noteq> None" by (simp add: s_demo_def)
  have dist: "distinct (dict_keys (tasks s_demo))" by (simp add: s_demo_def dict_keys_def)
  from C9_delete_task [of s_demo "''nope''"] absent
  have a: "delete_task ''nope'' s_demo = (Inl (NotFound ''Task not found''), s_demo)" by blast
  from C9_delete_task [of s_demo "''task-1''"] present
  obtain s' where s': "delete_task ''task-1'' s_demo = (Inr (), s')"
      "get_task ''task-1'' s' = Inl (NotFound ''Task not found'')"
      "\<forall>k. k \<noteq> ''task-1'' \<longrightarrow> get_task k s' = get_task k s_demo"
      "distinct (dict_keys (tasks s_demo)) \<longrightarrow> length (tasks s') + 1 = length (tasks s_demo)"
      "agents s' = agents s_demo" "objs s' = objs s_demo" "list_agents s' = list_agents s_demo"
      "\<forall>agent_id. get_agent agent_id s' = get_agent agent_id s_demo"
    by blast
  from s'(3) have others: "get_task ''task-2'' s' = get_task ''task-2'' s_demo"
      "get_task ''task-3'' s' = get_task ''task-3'' s_demo" by simp_all
  from s'(4) dist have len: "length (tasks s') + 1 = length (tasks s_demo)" by blast
  from s'(8) have ag: "get_agent ''agent-1'' s' = get_agent ''agent-1'' s_demo" by blast
  from s'(1,2) others len s'(5,6,7) ag
  have b: "\<exists>s'. delete_task ''task-1'' s_demo = (Inr (), s')
          \<and> get_task ''task-1'' s' = Inl (NotFound ''Task not found'')
          \<and> get_task ''task-2'' s' = get_task ''task-2'' s_demo
          \<and> get_task ''task-3'' s' = get_task ''task-3'' s_demo
          \<and> length (tasks s') + 1 = length (tasks s_demo)
          \<and> agents s' = agents s_demo \<and> objs s' = objs s_demo
          \<and> list_agents s' = list_agents s_demo
          \<and> get_agent ''agent-1'' s' = get_agent ''agent-1'' s_demo"
    by blast
  from absent a present dist b show ?thesis by blast
qed


section \<open>Listing tasks never fails\<close>

text \<open>
  Claim C10. A list request is answered with a list of tasks, never with an error,
  whatever the three filters hold, and it leaves the state as it was. A status filter
  or a priority filter that no stored task carries, or an assigned_to filter that is
  the id of no snapshot, gives the empty list; in a reachable state this is so for
  every status and every priority outside the enumeration.
\<close>

theorem C10_list_tasks_never_fails:
  "(\<exists>ts. handle (ListTasks status_filter assigned_to priority) uuid now s = (Inr (RTasks ts), s))
   \<and> ((\<forall>t \<in> set (dict_values (tasks s)). t_status t \<noteq> v) \<longrightarrow>
        list_tasks (Some v) assigned_to priority s = [])
   \<and> ((\<forall>t \<in> set (dict_values (tasks s)). t_priority t \<noteq> v) \<longrightarrow>
        list_tasks status_filter assigned_to (Some v) s = [])
   \<and> ((\<forall>t \<in> set (dict_values (tasks s)).
           \<forall>p. t_assigned_to t = Some p \<longrightarrow> a_id (deref s p) \<noteq> v) \<longrightarrow>
        list_tasks status_filter (Some v) priority s = [])
   \<and> (v \<notin> VALID_STATUSES \<longrightarrow> list_tasks (Some v) assigned_to priority (run h) = [])
   \<and> (v \<notin> VALID_PRIORITIES \<longrightarrow> list_tasks status_filter assigned_to (Some v) (run h) = [])"
proof -
  have no_agent: "list_tasks status_filter (Some v) priority s = []"
    if none: "\<forall>t \<in> set (dict_values (tasks s)).
          \<forall>p. t_assigned_to t = Some p \<longrightarrow> a_id (deref s p) \<noteq> v"
  proof -
    have "filter (\<lambda>t. t_assigned_to t \<noteq> None \<and> a_id (deref s (the (t_assigned_to t))) = v) xs
          = []" if sub: "set xs \<subseteq> set (dict_values (tasks s))" for xs
      using none sub by (fastforce simp: filter_empty_conv)
    then show ?thesis by (simp add: list_tasks_def split: option.splits)
  qed
  have no_status: "list_tasks (Some v) assigned_to priority s = []"
    if "\<forall>t \<in> set (dict_values (tasks s)). t_status t \<noteq> v" for s
  proof -
    from that have "filter (\<lambda>t. t_status t = v) (dict_values (tasks s)) = []"
      by (simp add: filter_empty_conv)
    then show ?thesis by (simp add: list_tasks_def split: option.splits)
  qed
  have no_priority: "list_tasks status_filter assigned_to (Some v) s = []"
    if "\<forall>t \<in> set (dict_values (tasks s)). t_priority t \<noteq> v" for s
    using that by (simp add: list_tasks_def filter_empty_conv split: option.splits)
  have "\<forall>t \<in> set (dict_values (tasks (run h))). t_status t \<noteq> v" if "v \<notin> VALID_STATUSES"
    using that enum_ok_run [of h] by (auto simp: enum_ok_def)
  moreover
  have "\<forall>t \<in> set (dict_values (tasks (run h))). t_priority t \<noteq> v" if "v \<notin> VALID_PRIORITIES"
    using that enum_ok_run [of h] by (auto simp: enum_ok_def)
  ultimately show ?thesis using no_status no_priority no_agent by simp
qed

theorem C10_list_tasks_never_fails_witness:
  "(\<exists>ts. handle (ListTasks (Some ''bogus'') (Some ''ghost'') (Some ''urgent'')) [] [] s_demo
           = (Inr (RTasks ts), s_demo))
   \<and> list_all (\<lambda>t. t_status t \<noteq> ''bogus'') (dict_values (tasks s_demo))
   \<and> list_tasks (Some ''bogus'') None None s_demo = []
   \<and> list_all (\<lambda>t. t_priority t \<noteq> ''urgent'') (dict_values (tasks s_demo))
   \<and> list_tasks None None (Some ''urgent'') s_demo = []
   \<and> list_all (\<lambda>t. case t_assigned_to t of None \<Rightarrow> True
                           | Some p \<Rightarrow> a_id (deref s_demo p) \<noteq> ''ghost'')
         (dict_values (tasks s_demo))
   \<and> list_tasks None (Some ''ghost'') None s_demo = []
   \<and> ''bogus'' \<notin> VALID_STATUSES
   \<and> list_tasks (Some ''bogus'') None None (run h_demo) = []
   \<and> ''urgent'' \<notin> VALID_PRIORITIES
   \<and> list_tasks None None (Some ''urgent'') (run h_demo) = []"
proof -
  have s: "list_all (\<lambda>t. t_status t \<noteq> ''bogus'') (dict_values (tasks s_demo))"
    and p: "list_all (\<lambda>t. t_priority t \<noteq> ''urgent'') (dict_values (tasks s_demo))"
    by (simp_all add: s_demo_def dict_values_def)
  have g: "list_all (\<lambda>t. case t_assigned_to t of None \<Rightarrow> True
                           | Some p \<Rightarrow> a_id (deref s_demo p) \<noteq> ''ghost'')
         (dict_values (tasks s_demo))"
    by (simp add: s_demo_def dict_values_def deref_def)
  have v: "''bogus'' \<notin> VALID_STATUSES" "''urgent'' \<notin> VALID_PRIORITIES"
    by (simp_all add: VALID_STATUSES_def VALID_PRIORITIES_def)
  from C10_list_tasks_never_fails
         [of "Some ''bogus''" "Some ''ghost''" "Some ''urgent''" "[]" "[]" s_demo]
  have a: "\<exists>ts. handle (ListTasks (Some ''bogus'') (Some ''ghost'') (Some ''urgent'')) [] [] s_demo
           = (Inr (RTasks ts), s_demo)" by blast
  note inst = C10_list_tasks_never_fails [of None None None "[]" "[]" s_demo _ h_demo]
  from inst [of "''bogus''"] s have b: "list_tasks (Some ''bogus'') None None s_demo = []"
    by (simp add: list_all_iff)
  from inst [of "''urgent''"] p have c: "list_tasks None None (Some ''urgent'') s_demo = []"
    by (simp add: list_all_iff)
  from inst [of "''ghost''"] g have c': "list_tasks None (Some ''ghost'') None s_demo = []"
    by (simp add: list_all_iff split: option.splits)
  from inst [of "''bogus''"] v have d: "list_tasks (Some ''bogus'') None None (run h_demo) = []"
    by blast
  from inst [of "''urgent''"] v have e: "list_tasks None None (Some ''urgent'') (run h_demo) = []"
    by blast
  from a s b p c g c' v d e show ?thesis by blast
qed

end
